theory Spec2Isabelle
  imports Complex_Main "HOL-Library.Multiset"
begin

section \<open>Values of the runtime\<close>

text \<open>
  A JavaScript \<open>number\<close> that reaches the handlers comes out of a JSON document, so it is
  finite; it is modelled as a rational. A JavaScript string is a sequence of UTF-16 code
  units, each a number below 65536; \<open>length\<close>, the patterns and \<open>trim\<close> work on code
  units. \<open>lit\<close> gives the code units of a literal of the source, which are all ASCII.
  \<open>null\<close> and \<open>undefined\<close> are \<open>None\<close>.
\<close>

type_synonym number = rat

type_synonym unit16 = nat

type_synonym jstring = "unit16 list"

definition lit :: "string \<Rightarrow> jstring" where
  "lit s = map of_char s"

definition in_range :: "unit16 \<Rightarrow> unit16 \<Rightarrow> unit16 \<Rightarrow> bool" where
  "in_range lo hi c \<longleftrightarrow> lo \<le> c \<and> c \<le> hi"

text \<open>
  White space and line terminators of the language, which \<open>trim\<close> strips: U+0009 to
  U+000D, U+0020, U+00A0, U+1680, U+2000 to U+200A, U+2028, U+2029, U+202F, U+205F, U+3000
  and U+FEFF.
\<close>

definition is_space :: "unit16 \<Rightarrow> bool" where
  "is_space c \<longleftrightarrow>
     c \<in> {9, 10, 11, 12, 13, 32, 160, 5760, 8232, 8233, 8239, 8287, 12288, 65279}
     \<or> in_range 8192 8202 c"

definition trim :: "jstring \<Rightarrow> jstring" where
  "trim s = rev (dropWhile is_space (rev (dropWhile is_space s)))"

definition startsWith :: "jstring \<Rightarrow> jstring \<Rightarrow> bool" where
  "startsWith s p \<longleftrightarrow> take (length p) s = p"

text \<open>
  What the program takes from its runtime: the case mappings of Unicode, the parts of a date
  formatted by \<open>Intl.DateTimeFormat\<close> for a zone name (or the exception thrown), and
  \<open>parseInt\<close>, whose result is a double (\<open>None\<close> is \<open>NaN\<close>).
\<close>

datatype js_exn = RangeError | TypeError | FetchFailed

record runtime =
  rt_toUpperCase :: "jstring \<Rightarrow> jstring"
  rt_toLowerCase :: "jstring \<Rightarrow> jstring"
  rt_formatToParts :: "jstring \<Rightarrow> js_exn + (jstring \<times> jstring) list"
  rt_parseInt :: "jstring \<Rightarrow> number option"

text \<open>
  On a string of ASCII code units the two case mappings are the same in every runtime: the
  26 letters change case and nothing else changes. White space has no case either. Such
  strings are mapped here; every other string is mapped by the runtime.
\<close>

definition is_ascii :: "unit16 \<Rightarrow> bool" where
  "is_ascii c \<longleftrightarrow> c < 128"

definition toLowerCase_ascii :: "unit16 \<Rightarrow> unit16" where
  "toLowerCase_ascii c =
     (if in_range (of_char (CHR ''A'')) (of_char (CHR ''Z'')) c then c + 32 else c)"

definition toUpperCase_ascii :: "unit16 \<Rightarrow> unit16" where
  "toUpperCase_ascii c =
     (if in_range (of_char (CHR ''a'')) (of_char (CHR ''z'')) c then c - 32 else c)"

definition toLowerCase :: "runtime \<Rightarrow> jstring \<Rightarrow> jstring" where
  "toLowerCase rt s =
     (if list_all (\<lambda>c. is_ascii c \<or> is_space c) s then map toLowerCase_ascii s
      else rt_toLowerCase rt s)"

definition toUpperCase :: "runtime \<Rightarrow> jstring \<Rightarrow> jstring" where
  "toUpperCase rt s =
     (if list_all (\<lambda>c. is_ascii c \<or> is_space c) s then map toUpperCase_ascii s
      else rt_toUpperCase rt s)"

text \<open>Truthiness of a string that may be absent: \<open>!s\<close> holds for \<open>undefined\<close> and the empty string.\<close>

fun falsy :: "jstring option \<Rightarrow> bool" where
  "falsy None = True"
| "falsy (Some s) = (s = [])"

text \<open>\<open>s || d\<close> on a string that may be absent.\<close>

fun or_else :: "jstring option \<Rightarrow> jstring \<Rightarrow> jstring" where
  "or_else None d = d"
| "or_else (Some s) d = (if s = [] then d else s)"

section \<open>The flight search module\<close>

subsection \<open>Status mapper\<close>

datatype status = Scheduled | Boarding | Departed | InFlight | Landed | Delayed | Cancelled

text \<open>\<open>d && d > 15\<close> on a delay that may be \<open>null\<close>: \<open>null\<close> and \<open>0\<close> are falsy.\<close>

fun over15 :: "number option \<Rightarrow> bool" where
  "over15 None = False"
| "over15 (Some d) = (d \<noteq> 0 \<and> d > 15)"

definition mapStatus :: "runtime \<Rightarrow> jstring option \<Rightarrow> number option \<Rightarrow> number option \<Rightarrow> status" where
  "mapStatus rt apiStatus depDelay arrDelay =
     (let status = or_else (map_option (toLowerCase rt) apiStatus) (lit ''scheduled'') in
      if over15 depDelay \<or> over15 arrDelay then Delayed
      else if status = (lit ''scheduled'') then Scheduled
      else if status = (lit ''active'') then InFlight
      else if status = (lit ''landed'') then Landed
      else if status = (lit ''cancelled'') then Cancelled
      else if status = (lit ''incident'') then Delayed
      else if status = (lit ''diverted'') then Delayed
      else Scheduled)"

subsection \<open>Regular expressions\<close>

text \<open>
  The patterns of the handlers are anchored at both ends and are only applied with
  \<open>test\<close>, so a pattern is a regular expression that has to match the whole string.
  A character class is a list of inclusive ranges. The matcher works by derivatives.
\<close>

datatype rexp = Nul | Eps | Chars "(unit16 \<times> unit16) list" | Alt rexp rexp | Cat rexp rexp | Star rexp

definition in_class :: "(unit16 \<times> unit16) list \<Rightarrow> unit16 \<Rightarrow> bool" where
  "in_class rs c = list_ex (\<lambda>r. in_range (fst r) (snd r) c) rs"

fun nullable :: "rexp \<Rightarrow> bool" where
  "nullable Nul = False"
| "nullable Eps = True"
| "nullable (Chars rs) = False"
| "nullable (Alt a b) = (nullable a \<or> nullable b)"
| "nullable (Cat a b) = (nullable a \<and> nullable b)"
| "nullable (Star a) = True"

fun deriv :: "unit16 \<Rightarrow> rexp \<Rightarrow> rexp" where
  "deriv c Nul = Nul"
| "deriv c Eps = Nul"
| "deriv c (Chars rs) = (if in_class rs c then Eps else Nul)"
| "deriv c (Alt a b) = Alt (deriv c a) (deriv c b)"
| "deriv c (Cat a b) =
     (if nullable a then Alt (Cat (deriv c a) b) (deriv c b) else Cat (deriv c a) b)"
| "deriv c (Star a) = Cat (deriv c a) (Star a)"

fun test :: "rexp \<Rightarrow> jstring \<Rightarrow> bool" where
  "test r [] = nullable r"
| "test r (c # cs) = test (deriv c r) cs"

text \<open>\<open>r{n}\<close> and \<open>r+\<close>.\<close>

fun rep_exactly :: "nat \<Rightarrow> rexp \<Rightarrow> rexp" where
  "rep_exactly 0 r = Eps"
| "rep_exactly (Suc n) r = Cat r (rep_exactly n r)"

definition one_or_more :: "rexp \<Rightarrow> rexp" where
  "one_or_more r = Cat r (Star r)"

text \<open>The classes \<open>[A-Z]\<close> and of the decimal digits, and the literal \<open>-\<close>.\<close>

definition upper :: rexp where
  "upper = Chars [(of_char (CHR ''A''), of_char (CHR ''Z''))]"

definition digit :: rexp where
  "digit = Chars [(of_char (CHR ''0''), of_char (CHR ''9''))]"

definition dash :: rexp where
  "dash = Chars [(of_char (CHR ''-''), of_char (CHR ''-''))]"

text \<open>The language of a regular expression, to say what the matcher decides.\<close>

definition conc :: "jstring set \<Rightarrow> jstring set \<Rightarrow> jstring set" where
  "conc A B = {u @ v | u v. u \<in> A \<and> v \<in> B}"

inductive_set star :: "jstring set \<Rightarrow> jstring set" for A :: "jstring set" where
  star_nil: "[] \<in> star A"
| star_app: "u \<in> A \<Longrightarrow> v \<in> star A \<Longrightarrow> u @ v \<in> star A"

fun lang :: "rexp \<Rightarrow> jstring set" where
  "lang Nul = {}"
| "lang Eps = {[]}"
| "lang (Chars rs) = {[c] | c. in_class rs c}"
| "lang (Alt a b) = lang a \<union> lang b"
| "lang (Cat a b) = conc (lang a) (lang b)"
| "lang (Star a) = star (lang a)"

subsection \<open>Requests and the upstream provider\<close>

text \<open>
  The query string of a request is a list of name and value pairs; \<open>get\<close> answers the
  first value of a name, \<open>set\<close> overwrites the first pair of a name and deletes the others,
  or appends a new pair.
\<close>

type_synonym searchParams = "(jstring \<times> jstring) list"

definition sp_get :: "searchParams \<Rightarrow> jstring \<Rightarrow> jstring option" where
  "sp_get ps name = map_of ps name"

fun sp_set :: "jstring \<Rightarrow> jstring \<Rightarrow> searchParams \<Rightarrow> searchParams" where
  "sp_set name v [] = [(name, v)]"
| "sp_set name v (p # ps) =
     (if fst p = name then (name, v) # filter (\<lambda>q. fst q \<noteq> name) ps else p # sp_set name v ps)"

record url =
  url_base :: jstring
  url_params :: searchParams

text \<open>
  The provider is outside the program. The world holds the replies it is going to give, in
  order, and the log of the requests sent to it. A reply is a rejected \<open>fetch\<close>, or a
  response with its HTTP status and its body parsed as JSON (\<open>None\<close> when \<open>json()\<close>
  throws). With no reply left, \<open>fetch\<close> rejects.
\<close>

datatype 'a reply = Rejected | Answer nat "'a option"

record 'a world =
  pending :: "'a reply list"
  sent :: "url list"

definition fetch :: "url \<Rightarrow> 'a world \<Rightarrow> 'a reply \<times> 'a world" where
  "fetch u w =
     (case pending w of
        [] \<Rightarrow> (Rejected, w\<lparr>sent := sent w @ [u]\<rparr>)
      | r # rs \<Rightarrow> (r, w\<lparr>pending := rs, sent := sent w @ [u]\<rparr>))"

record 'b response =
  resp_status :: nat
  resp_body :: 'b

text \<open>\<open>NextResponse.json(body)\<close> and \<open>NextResponse.json(body, {status})\<close>.\<close>

definition json :: "'b \<Rightarrow> 'b response" where
  "json b = \<lparr>resp_status = 200, resp_body = b\<rparr>"

definition json_status :: "'b \<Rightarrow> nat \<Rightarrow> 'b response" where
  "json_status b st = \<lparr>resp_status = st, resp_body = b\<rparr>"

text \<open>The body of the flight-status provider: an error object or a list of rows.\<close>

record as_error =
  error_message :: "jstring option"

record 'a as_payload =
  payload_error :: "as_error option"
  payload_data :: "'a list option"

text \<open>Running a list of computations that may throw; the first exception wins.\<close>

fun sequence :: "('e + 'a) list \<Rightarrow> 'e + 'a list" where
  "sequence [] = Inr []"
| "sequence (x # xs) =
     (case x of Inl e \<Rightarrow> Inl e
      | Inr a \<Rightarrow> (case sequence xs of Inl e \<Rightarrow> Inl e | Inr as \<Rightarrow> Inr (a # as)))"

text \<open>The decimal digits of an array index, as a template literal prints it.\<close>

function show_nat :: "nat \<Rightarrow> jstring" where
  "show_nat n =
     (if n < 10 then [48 + n] else show_nat (n div 10) @ [48 + n mod 10])"
  by pat_completeness auto
termination
  by (relation "measure id") auto

declare show_nat.simps [simp del]

subsection \<open>Shapes of the flight search\<close>

text \<open>
  Field names carry the name of their interface where two interfaces of the source use the
  same name. The field \<open>codeshared\<close> of a provider flight has the type \<open>unknown\<close> and is
  never read; it is left out.
\<close>

record as_departure =
  leg_airport :: jstring
  leg_timezone :: jstring
  leg_iata :: jstring
  leg_icao :: jstring
  leg_terminal :: "jstring option"
  leg_gate :: "jstring option"
  leg_delay :: "number option"
  leg_scheduled :: jstring
  leg_estimated :: jstring
  leg_actual :: "jstring option"

record as_arrival = as_departure +
  leg_baggage :: "jstring option"

record as_airline =
  airline_name :: jstring
  airline_iata :: jstring
  airline_icao :: jstring

record as_flight =
  flight_number :: jstring
  flight_iata :: jstring
  flight_icao :: jstring

record as_live =
  live_updated :: jstring
  live_latitude :: number
  live_longitude :: number
  live_altitude :: number
  live_direction :: number
  live_speed_horizontal :: number
  live_speed_vertical :: number
  live_is_ground :: bool

record AviationStackFlight =
  flight_date :: jstring
  flight_status :: "jstring option"
  asf_departure :: as_departure
  asf_arrival :: as_arrival
  asf_airline :: as_airline
  asf_flight :: as_flight
  asf_live :: "as_live option"

record Flight_leg =
  at_airport :: jstring
  at_city :: jstring
  at_time :: jstring
  at_timezone :: jstring

record Flight_live =
  pos_latitude :: number
  pos_longitude :: number
  pos_altitude :: number
  pos_speed :: number
  pos_updated :: jstring

record Flight =
  Flight_id :: jstring
  Flight_flightNumber :: jstring
  Flight_airline :: jstring
  Flight_departure :: Flight_leg
  Flight_arrival :: Flight_leg
  Flight_status :: status
  Flight_live :: "Flight_live option"

subsection \<open>Timezone label formatter\<close>

text \<open>
  \<open>Intl.DateTimeFormat\<close> and \<open>formatToParts\<close> belong to the runtime: for a zone name they
  throw or give the parts of the formatted date, each a type and a value.
\<close>

definition tzAbbr :: "(jstring \<times> jstring) list \<Rightarrow> jstring" where
  "tzAbbr parts =
     (case find (\<lambda>p. fst p = lit ''timeZoneName'') parts of None \<Rightarrow> [] | Some p \<Rightarrow> snd p)"

text \<open>The body of the \<open>try\<close> block.\<close>

definition formatTimezone_try :: "runtime \<Rightarrow> jstring \<Rightarrow> js_exn + jstring" where
  "formatTimezone_try rt tz =
     (case rt_formatToParts rt tz of
        Inl e \<Rightarrow> Inl e
      | Inr parts \<Rightarrow> Inr (tz @ (lit '' ('') @ tzAbbr parts @ (lit '')'')))"

definition formatTimezone :: "runtime \<Rightarrow> jstring \<Rightarrow> js_exn + jstring" where
  "formatTimezone rt tz =
     (if tz = [] then Inr []
      else case formatTimezone_try rt tz of Inl e \<Rightarrow> Inr tz | Inr s \<Rightarrow> Inr s)"

subsection \<open>Flight transform\<close>

definition transformFlight :: "runtime \<Rightarrow> AviationStackFlight \<Rightarrow> nat \<Rightarrow> js_exn + Flight" where
  "transformFlight rt apiFlight index =
     (case formatTimezone rt (leg_timezone (asf_departure apiFlight)) of
        Inl e \<Rightarrow> Inl e
      | Inr dtz \<Rightarrow>
     (case formatTimezone rt (leg_timezone (asf_arrival apiFlight)) of
        Inl e \<Rightarrow> Inl e
      | Inr atz \<Rightarrow> Inr
         \<lparr>Flight_id = flight_iata (asf_flight apiFlight) @ (lit ''-'') @ show_nat index,
          Flight_flightNumber =
            (if flight_iata (asf_flight apiFlight) \<noteq> [] then flight_iata (asf_flight apiFlight)
             else airline_iata (asf_airline apiFlight) @ flight_number (asf_flight apiFlight)),
          Flight_airline = airline_name (asf_airline apiFlight),
          Flight_departure =
            \<lparr>at_airport = leg_iata (asf_departure apiFlight),
             at_city = leg_airport (asf_departure apiFlight),
             at_time = leg_scheduled (asf_departure apiFlight),
             at_timezone = dtz\<rparr>,
          Flight_arrival =
            \<lparr>at_airport = leg_iata (asf_arrival apiFlight),
             at_city = leg_airport (asf_arrival apiFlight),
             at_time = leg_scheduled (asf_arrival apiFlight),
             at_timezone = atz\<rparr>,
          Flight_status =
            mapStatus rt (flight_status apiFlight) (leg_delay (asf_departure apiFlight))
              (leg_delay (asf_arrival apiFlight)),
          Flight_live =
            map_option
              (\<lambda>l. \<lparr>pos_latitude = live_latitude l,
                    pos_longitude = live_longitude l,
                    pos_altitude = live_altitude l,
                    pos_speed = live_speed_horizontal l,
                    pos_updated = live_updated l\<rparr>)
              (asf_live apiFlight)\<rparr>))"

text \<open>\<open>rows.map(f)\<close> hands every row and its position to \<open>f\<close>.\<close>

definition map_indexed :: "('a \<Rightarrow> nat \<Rightarrow> 'b) \<Rightarrow> 'a list \<Rightarrow> 'b list" where
  "map_indexed f xs = map (\<lambda>p. f (snd p) (fst p)) (enumerate 0 xs)"

subsection \<open>Search handler\<close>

definition AVIATIONSTACK_BASE_URL :: jstring where
  "AVIATIONSTACK_BASE_URL = lit ''http://api.aviationstack.com/v1''"

definition flightNumberPattern :: rexp where
  "flightNumberPattern = Cat (rep_exactly 2 upper) (one_or_more digit)"

definition airportPattern :: rexp where
  "airportPattern = rep_exactly 3 upper"

text \<open>The name of the provider's search field that the query is sent in.\<close>

definition classify :: "jstring \<Rightarrow> jstring" where
  "classify query =
     (if test flightNumberPattern query then (lit ''flight_iata'')
      else if test airportPattern query then (lit ''dep_iata'')
      else if length query = 2 then (lit ''airline_iata'')
      else (lit ''flight_iata''))"

datatype search_body = Flights "Flight list" | SearchError jstring

definition search_url :: "jstring \<Rightarrow> jstring \<Rightarrow> jstring \<Rightarrow> url" where
  "search_url key query flightDate =
     (let ps0 = sp_set (lit ''access_key'') key [];
          ps1 = sp_set (classify query) query ps0;
          ps2 = (if flightDate \<noteq> [] then sp_set (lit ''flight_date'') flightDate ps1 else ps1);
          ps3 = sp_set (lit ''limit'') (lit ''20'') ps2
      in \<lparr>url_base = AVIATIONSTACK_BASE_URL @ (lit ''/flights''), url_params = ps3\<rparr>)"

definition search_failed :: "search_body response" where
  "search_failed =
     json_status (SearchError (lit ''Failed to fetch flight data. Please try again.'')) 500"

text \<open>A key is configured when it is set and not empty: \<open>!KEY\<close> is false.\<close>

fun configured :: "jstring option \<Rightarrow> jstring option" where
  "configured None = None"
| "configured (Some k) = (if k = [] then None else Some k)"

text \<open>\<open>searchParams.get(name)?.toUpperCase().trim() || ''\<close>.\<close>

definition normalised :: "runtime \<Rightarrow> searchParams \<Rightarrow> jstring \<Rightarrow> jstring" where
  "normalised rt searchParams name =
     or_else (map_option (trim \<circ> toUpperCase rt) (sp_get searchParams name)) []"

definition search_query :: "runtime \<Rightarrow> searchParams \<Rightarrow> jstring" where
  "search_query rt searchParams = normalised rt searchParams (lit ''q'')"

definition GET_search ::
  "jstring option \<Rightarrow> runtime \<Rightarrow> searchParams \<Rightarrow> AviationStackFlight as_payload world
     \<Rightarrow> search_body response \<times> AviationStackFlight as_payload world" where
  "GET_search AVIATIONSTACK_API_KEY rt searchParams w =
     (let query = search_query rt searchParams;
          flightDate = or_else (sp_get searchParams (lit ''date'')) []
      in
      if query = [] then (json (Flights []), w)
      else
        (case configured AVIATIONSTACK_API_KEY of
           None \<Rightarrow>
             (json_status (SearchError
                (lit ''Aviation Stack API key not configured. Please set AVIATIONSTACK_API_KEY environment variable.''))
                500, w)
         | Some key \<Rightarrow>
        (case fetch (search_url key query flightDate) w of
           (Rejected, w') \<Rightarrow> (search_failed, w')
         | (Answer st None, w') \<Rightarrow> (search_failed, w')
         | (Answer st (Some data), w') \<Rightarrow>
             (case payload_error data of
                Some err \<Rightarrow>
                  (json_status (SearchError
                     (or_else (error_message err) (lit ''Failed to fetch flight data''))) 400, w')
              | None \<Rightarrow>
                  (case sequence (map_indexed (transformFlight rt)
                          (case payload_data data of None \<Rightarrow> [] | Some rows \<Rightarrow> rows)) of
                     Inl e \<Rightarrow> (search_failed, w')
                   | Inr flights \<Rightarrow> (json (Flights flights), w'))))))"

subsection \<open>The classifier in the words of the specification\<close>

datatype search_kind = FlightNumberSearch | DepartureAirportSearch | AirlineCodeSearch

definition is_upper :: "unit16 \<Rightarrow> bool" where
  "is_upper c = in_range (of_char (CHR ''A'')) (of_char (CHR ''Z'')) c"

definition is_digit :: "unit16 \<Rightarrow> bool" where
  "is_digit c = in_range (of_char (CHR ''0'')) (of_char (CHR ''9'')) c"

text \<open>Two capital letters, then one digit or more.\<close>

definition two_letters_then_digits :: "jstring \<Rightarrow> bool" where
  "two_letters_then_digits q \<longleftrightarrow>
     length q > 2 \<and> list_all is_upper (take 2 q) \<and> list_all is_digit (drop 2 q)"

text \<open>Three capital letters.\<close>

definition three_letters :: "jstring \<Rightarrow> bool" where
  "three_letters q \<longleftrightarrow> length q = 3 \<and> list_all is_upper q"

definition spec_classify :: "jstring \<Rightarrow> search_kind" where
  "spec_classify q =
     (if two_letters_then_digits q then FlightNumberSearch
      else if three_letters q then DepartureAirportSearch
      else if length q = 2 then AirlineCodeSearch
      else FlightNumberSearch)"

fun field_of :: "search_kind \<Rightarrow> jstring" where
  "field_of FlightNumberSearch = lit ''flight_iata''"
| "field_of DepartureAirportSearch = lit ''dep_iata''"
| "field_of AirlineCodeSearch = lit ''airline_iata''"

section \<open>The pricing module\<close>

subsection \<open>Shapes of the fare provider and of a price result\<close>

text \<open>
  An array that the code reads with \<open>xs?.[0]\<close> or \<open>xs || []\<close> is a list, the missing
  array being the empty list; a lookup table read with \<open>t || {}\<close> is a map, the missing
  table being the empty map. Place and carrier ids are the keys of the tables.
\<close>

record FlightApiPrice =
  amount :: number
  update_status :: jstring

record FlightApiItem =
  item_url :: jstring

record FlightApiPricingOption =
  price :: "FlightApiPrice option"
  agent_ids :: "jstring list"
  items :: "FlightApiItem list"

record FlightApiLeg =
  fleg_id :: jstring
  origin_place_id :: int
  destination_place_id :: int
  fleg_departure :: jstring
  fleg_arrival :: jstring
  fleg_duration :: number
  stop_count :: number
  marketing_carrier_ids :: "int list"

record FlightApiItinerary =
  itinerary_id :: jstring
  pricing_options :: "FlightApiPricingOption list"
  legs :: "FlightApiLeg list"

record FlightApiPlace =
  place_id :: int
  place_iata :: jstring
  place_name :: jstring
  place_type :: jstring

record FlightApiCarrier =
  carrier_id :: int
  carrier_name :: jstring
  carrier_iata :: jstring

record FlightApiResponse =
  itineraries :: "FlightApiItinerary list"
  places :: "int \<rightharpoonup> FlightApiPlace"
  carriers :: "int \<rightharpoonup> FlightApiCarrier"
  currency :: "jstring option"

text \<open>The handler also reads \<open>error\<close> and \<open>message\<close> from the body of the provider.\<close>

record FlightApiBody = FlightApiResponse +
  body_error :: "jstring option"
  body_message :: "jstring option"

record Price_leg =
  end_airport :: jstring
  end_airportName :: jstring
  end_time :: jstring

record PriceResult =
  PriceResult_id :: jstring
  PriceResult_price :: number
  PriceResult_currency :: jstring
  PriceResult_airline :: jstring
  PriceResult_airlineCode :: jstring
  PriceResult_departure :: Price_leg
  PriceResult_arrival :: Price_leg
  PriceResult_duration :: number
  PriceResult_stops :: number
  PriceResult_bookingUrl :: jstring

subsection \<open>Price transform\<close>

text \<open>\<open>xs?.[0]\<close>.\<close>

fun first :: "'a list \<Rightarrow> 'a option" where
  "first [] = None"
| "first (x # xs) = Some x"

text \<open>\<open>n || d\<close> on a number that may be absent: \<open>undefined\<close> and \<open>0\<close> are falsy.\<close>

fun num_or :: "number option \<Rightarrow> number \<Rightarrow> number" where
  "num_or None d = d"
| "num_or (Some n) d = (if n = 0 then d else n)"

definition bookingUrl_of :: "FlightApiPricingOption \<Rightarrow> jstring" where
  "bookingUrl_of pricingOption =
     (case first (items pricingOption) of
        None \<Rightarrow> []
      | Some bookingItem \<Rightarrow>
          if item_url bookingItem \<noteq> [] then
            (if startsWith (item_url bookingItem) (lit ''http'') then item_url bookingItem
             else (lit ''https://www.skyscanner.com'') @ item_url bookingItem)
          else [])"

text \<open>The body of the loop: \<open>None\<close> is \<open>continue\<close>, \<open>Some\<close> is the item pushed.\<close>

definition price_item ::
  "(int \<rightharpoonup> FlightApiPlace) \<Rightarrow> (int \<rightharpoonup> FlightApiCarrier) \<Rightarrow> jstring \<Rightarrow> FlightApiItinerary
     \<Rightarrow> PriceResult option" where
  "price_item places' carriers' currency' itinerary =
     (case first (pricing_options itinerary) of
        None \<Rightarrow> None
      | Some pricingOption \<Rightarrow>
     (case first (legs itinerary) of
        None \<Rightarrow> None
      | Some leg \<Rightarrow>
          (let originPlace = places' (origin_place_id leg);
               destPlace = places' (destination_place_id leg);
               carrier = (case first (marketing_carrier_ids leg) of
                            None \<Rightarrow> None | Some carrierId \<Rightarrow> carriers' carrierId)
           in Some
             \<lparr>PriceResult_id = itinerary_id itinerary,
              PriceResult_price = num_or (map_option amount (price pricingOption)) 0,
              PriceResult_currency = currency',
              PriceResult_airline = or_else (map_option carrier_name carrier) (lit ''Unknown Airline''),
              PriceResult_airlineCode = or_else (map_option carrier_iata carrier) [],
              PriceResult_departure =
                \<lparr>end_airport = or_else (map_option place_iata originPlace) [],
                 end_airportName = or_else (map_option place_name originPlace) [],
                 end_time = fleg_departure leg\<rparr>,
              PriceResult_arrival =
                \<lparr>end_airport = or_else (map_option place_iata destPlace) [],
                 end_airportName = or_else (map_option place_name destPlace) [],
                 end_time = fleg_arrival leg\<rparr>,
              PriceResult_duration = fleg_duration leg,
              PriceResult_stops = stop_count leg,
              PriceResult_bookingUrl = bookingUrl_of pricingOption\<rparr>)))"

fun price_loop ::
  "(FlightApiItinerary \<Rightarrow> PriceResult option) \<Rightarrow> FlightApiItinerary list \<Rightarrow> PriceResult list
     \<Rightarrow> PriceResult list" where
  "price_loop body [] results = results"
| "price_loop body (itinerary # rest) results =
     (case body itinerary of
        None \<Rightarrow> price_loop body rest results
      | Some item \<Rightarrow> price_loop body rest (results @ [item]))"

text \<open>
  \<open>Array.prototype.sort\<close> with a comparator is a stable sort: an element goes in front of
  the first element that the comparator does not put before it.
\<close>

fun insert_by :: "('a \<Rightarrow> 'a \<Rightarrow> number) \<Rightarrow> 'a \<Rightarrow> 'a list \<Rightarrow> 'a list" where
  "insert_by cmp x [] = [x]"
| "insert_by cmp x (y # ys) = (if cmp x y \<le> 0 then x # y # ys else y # insert_by cmp x ys)"

definition sort_by :: "('a \<Rightarrow> 'a \<Rightarrow> number) \<Rightarrow> 'a list \<Rightarrow> 'a list" where
  "sort_by cmp xs = foldr (insert_by cmp) xs []"

definition by_price :: "PriceResult \<Rightarrow> PriceResult \<Rightarrow> number" where
  "by_price a b = PriceResult_price a - PriceResult_price b"

definition unsorted_prices :: "'a FlightApiResponse_scheme \<Rightarrow> PriceResult list" where
  "unsorted_prices data =
     price_loop (price_item (places data) (carriers data) (or_else (currency data) (lit ''USD'')))
       (itineraries data) []"

definition transformPricingData :: "'a FlightApiResponse_scheme \<Rightarrow> PriceResult list" where
  "transformPricingData data = sort_by by_price (unsorted_prices data)"

subsection \<open>Pricing handler\<close>

definition FLIGHTAPI_BASE_URL :: jstring where
  "FLIGHTAPI_BASE_URL = lit ''https://api.flightapi.io''"

record pricing_meta =
  meta_from :: jstring
  meta_to :: jstring
  meta_date :: jstring
  meta_adults :: "number option"
  meta_currency :: jstring
  meta_resultsCount :: nat

datatype pricing_body = Prices "PriceResult list" pricing_meta | PricingError jstring

definition datePattern :: rexp where
  "datePattern =
     Cat (rep_exactly 4 digit)
       (Cat dash (Cat (rep_exactly 2 digit) (Cat dash (rep_exactly 2 digit))))"

definition pricing_url :: "jstring \<Rightarrow> jstring \<Rightarrow> jstring \<Rightarrow> jstring \<Rightarrow> jstring \<Rightarrow> jstring \<Rightarrow> url" where
  "pricing_url key from to date adults currency' =
     \<lparr>url_base = FLIGHTAPI_BASE_URL @ (lit ''/onewaytrip/'') @ key @ (lit ''/'') @ from @ (lit ''/'') @ to
         @ (lit ''/'') @ date @ (lit ''/'') @ adults @ (lit ''/0/0/Economy/'') @ currency',
      url_params = []\<rparr>"

definition pricing_failed :: "pricing_body response" where
  "pricing_failed =
     json_status (PricingError (lit ''Failed to fetch pricing data. Please try again.'')) 500"

text \<open>
  \<open>NextResponse.json\<close> with a status taken from the provider: it throws for a status
  outside 200 to 599 and for a status that allows no body (204, 205, 304).
\<close>

definition respond :: "'b \<Rightarrow> nat \<Rightarrow> js_exn + 'b response" where
  "respond b st =
     (if st < 200 \<or> 599 < st then Inl RangeError
      else if st \<in> {204, 205, 304} then Inl TypeError
      else Inr (json_status b st))"

text \<open>\<open>response.ok\<close>.\<close>

definition ok :: "nat \<Rightarrow> bool" where
  "ok st \<longleftrightarrow> 200 \<le> st \<and> st \<le> 299"

text \<open>
  The part of the handler after the checks of the request and of the key. Reading the text
  of a response that is not ok, which the handler only logs, is taken to succeed.
\<close>

definition pricing_call ::
  "runtime \<Rightarrow> jstring \<Rightarrow> jstring \<Rightarrow> jstring \<Rightarrow> jstring \<Rightarrow> jstring \<Rightarrow> jstring
     \<Rightarrow> FlightApiBody world \<Rightarrow> pricing_body response \<times> FlightApiBody world" where
  "pricing_call rt key from to date adults currency' w =
     (case fetch (pricing_url key from to date adults currency') w of
        (Rejected, w') \<Rightarrow> (pricing_failed, w')
      | (Answer st body, w') \<Rightarrow>
          if \<not> ok st then
            (if st = 401 then
               (json_status (PricingError (lit ''Invalid API key. Please check your FLIGHTAPI_KEY.'')) 401, w')
             else if st = 429 then
               (json_status (PricingError (lit ''API rate limit exceeded. Please try again later.'')) 429, w')
             else
               (case respond (PricingError (lit ''Failed to fetch pricing data. Please try again.'')) st of
                  Inl e \<Rightarrow> (pricing_failed, w')
                | Inr answer \<Rightarrow> (answer, w')))
          else
            (case body of
               None \<Rightarrow> (pricing_failed, w')
             | Some data \<Rightarrow>
                 if \<not> falsy (body_error data) \<or> \<not> falsy (body_message data) then
                   (json_status (PricingError
                      (or_else (body_message data) (or_else (body_error data) (lit ''Unknown API error''))))
                      400, w')
                 else
                   (let prices = transformPricingData data
                    in (json (Prices prices
                          \<lparr>meta_from = from, meta_to = to, meta_date = date,
                           meta_adults = rt_parseInt rt adults, meta_currency = currency',
                           meta_resultsCount = length prices\<rparr>), w'))))"

definition GET_pricing ::
  "jstring option \<Rightarrow> runtime \<Rightarrow> searchParams \<Rightarrow> FlightApiBody world
     \<Rightarrow> pricing_body response \<times> FlightApiBody world" where
  "GET_pricing FLIGHTAPI_KEY rt searchParams w =
     (let from = map_option (trim \<circ> toUpperCase rt) (sp_get searchParams (lit ''from''));
          to = map_option (trim \<circ> toUpperCase rt) (sp_get searchParams (lit ''to''));
          date = sp_get searchParams (lit ''date'');
          adults = or_else (sp_get searchParams (lit ''adults'')) (lit ''1'');
          currency' = or_else (sp_get searchParams (lit ''currency'')) (lit ''USD'')
      in
      if falsy from \<or> falsy to \<or> falsy date then
        (json_status (PricingError (lit ''Missing required parameters: from, to, date'')) 400, w)
      else if \<not> test airportPattern (or_else from []) \<or> \<not> test airportPattern (or_else to []) then
        (json_status (PricingError
           (lit ''Invalid airport code. Use 3-letter IATA codes (e.g., JFK, LAX)'')) 400, w)
      else if \<not> test datePattern (or_else date []) then
        (json_status (PricingError (lit ''Invalid date format. Use YYYY-MM-DD'')) 400, w)
      else
        (case configured FLIGHTAPI_KEY of
           None \<Rightarrow>
             (json_status (PricingError
                (lit ''FlightAPI.io API key not configured. Please set FLIGHTAPI_KEY environment variable.''))
                500, w)
         | Some key \<Rightarrow>
             pricing_call rt key (or_else from []) (or_else to []) (or_else date []) adults currency' w))"

section \<open>The routes module\<close>

record as_route_leg =
  rleg_airport :: jstring
  rleg_timezone :: jstring
  rleg_iata :: jstring
  rleg_icao :: jstring
  rleg_terminal :: "jstring option"
  rleg_time :: jstring

record as_route_airline =
  ra_name :: jstring
  ra_callsign :: jstring
  ra_iata :: jstring
  ra_icao :: jstring

record as_route_flight =
  rf_number :: jstring

record AviationStackRoute =
  route_departure :: as_route_leg
  route_arrival :: as_route_leg
  route_airline :: as_route_airline
  route_flight :: as_route_flight

record Route_leg =
  stop_airport :: jstring
  stop_airportName :: jstring
  stop_time :: jstring
  stop_timezone :: jstring
  stop_terminal :: "jstring option"

record FlightRoute =
  FlightRoute_id :: jstring
  FlightRoute_flightNumber :: jstring
  FlightRoute_airline :: jstring
  FlightRoute_airlineCode :: jstring
  FlightRoute_departure :: Route_leg
  FlightRoute_arrival :: Route_leg

definition transformRoute :: "AviationStackRoute \<Rightarrow> nat \<Rightarrow> FlightRoute" where
  "transformRoute route index =
     \<lparr>FlightRoute_id =
        ra_iata (route_airline route) @ rf_number (route_flight route) @ (lit ''-'') @ show_nat index,
      FlightRoute_flightNumber = ra_iata (route_airline route) @ rf_number (route_flight route),
      FlightRoute_airline = ra_name (route_airline route),
      FlightRoute_airlineCode = ra_iata (route_airline route),
      FlightRoute_departure =
        \<lparr>stop_airport = rleg_iata (route_departure route),
         stop_airportName = rleg_airport (route_departure route),
         stop_time = rleg_time (route_departure route),
         stop_timezone = rleg_timezone (route_departure route),
         stop_terminal = rleg_terminal (route_departure route)\<rparr>,
      FlightRoute_arrival =
        \<lparr>stop_airport = rleg_iata (route_arrival route),
         stop_airportName = rleg_airport (route_arrival route),
         stop_time = rleg_time (route_arrival route),
         stop_timezone = rleg_timezone (route_arrival route),
         stop_terminal = rleg_terminal (route_arrival route)\<rparr>\<rparr>"

record route_side =
  side_routes :: "FlightRoute list"
  side_origin :: jstring
  side_destination :: jstring
  side_date :: jstring

datatype routes_body = Routes route_side "route_side option" | RoutesError jstring

definition routes_url :: "jstring \<Rightarrow> jstring \<Rightarrow> jstring \<Rightarrow> url" where
  "routes_url key dep arr =
     \<lparr>url_base = AVIATIONSTACK_BASE_URL @ (lit ''/routes''),
      url_params =
        sp_set (lit ''limit'') (lit ''25'')
          (sp_set (lit ''arr_iata'') arr (sp_set (lit ''dep_iata'') dep (sp_set (lit ''access_key'') key [])))\<rparr>"

definition routes_failed :: "routes_body response" where
  "routes_failed =
     json_status (RoutesError (lit ''Failed to fetch flight routes. Please try again.'')) 500"

definition rows_of :: "'a as_payload \<Rightarrow> 'a list" where
  "rows_of data = (case payload_data data of None \<Rightarrow> [] | Some rows \<Rightarrow> rows)"

text \<open>The second half of the \<open>try\<close> block: the return routes and the answer.\<close>

definition routes_return ::
  "jstring \<Rightarrow> jstring \<Rightarrow> jstring \<Rightarrow> jstring \<Rightarrow> jstring \<Rightarrow> FlightRoute list
     \<Rightarrow> AviationStackRoute as_payload world
     \<Rightarrow> routes_body response \<times> AviationStackRoute as_payload world" where
  "routes_return key origin destination departureDate returnDate outboundRoutes w =
     (let outbound = \<lparr>side_routes = outboundRoutes, side_origin = origin,
                      side_destination = destination, side_date = departureDate\<rparr>
      in
      if returnDate \<noteq> [] then
        (case fetch (routes_url key destination origin) w of
           (Rejected, w') \<Rightarrow> (routes_failed, w')
         | (Answer st None, w') \<Rightarrow> (routes_failed, w')
         | (Answer st (Some returnData), w') \<Rightarrow>
             (let returnRoutes =
                    (if payload_error returnData = None
                     then map_indexed transformRoute (rows_of returnData) else [])
              in (json (Routes outbound
                    (Some \<lparr>side_routes = returnRoutes, side_origin = destination,
                           side_destination = origin, side_date = returnDate\<rparr>)), w')))
      else (json (Routes outbound None), w))"

definition GET_routes ::
  "jstring option \<Rightarrow> runtime \<Rightarrow> searchParams \<Rightarrow> AviationStackRoute as_payload world
     \<Rightarrow> routes_body response \<times> AviationStackRoute as_payload world" where
  "GET_routes AVIATIONSTACK_API_KEY rt searchParams w =
     (let origin = normalised rt searchParams (lit ''origin'');
          destination = normalised rt searchParams (lit ''destination'');
          departureDate = or_else (sp_get searchParams (lit ''departureDate'')) [];
          returnDate = or_else (sp_get searchParams (lit ''returnDate'')) []
      in
      if origin = [] \<or> destination = [] then
        (json_status (RoutesError (lit ''Both origin and destination are required'')) 400, w)
      else
        (case configured AVIATIONSTACK_API_KEY of
           None \<Rightarrow> (json_status (RoutesError (lit ''Aviation Stack API key not configured'')) 500, w)
         | Some key \<Rightarrow>
        (case fetch (routes_url key origin destination) w of
           (Rejected, w') \<Rightarrow> (routes_failed, w')
         | (Answer st None, w') \<Rightarrow> (routes_failed, w')
         | (Answer st (Some outboundData), w') \<Rightarrow>
             (case payload_error outboundData of
                Some err \<Rightarrow>
                  (json_status (RoutesError
                     (or_else (error_message err) (lit ''Failed to fetch flight routes''))) 400, w')
              | None \<Rightarrow>
                  routes_return key origin destination departureDate returnDate
                    (map_indexed transformRoute (rows_of outboundData)) w'))))"

section \<open>The checks a request passes before the key is looked at\<close>

definition pricing_checks_pass :: "runtime \<Rightarrow> searchParams \<Rightarrow> bool" where
  "pricing_checks_pass rt searchParams =
     (let from = map_option (trim \<circ> toUpperCase rt) (sp_get searchParams (lit ''from''));
          to = map_option (trim \<circ> toUpperCase rt) (sp_get searchParams (lit ''to''));
          date = sp_get searchParams (lit ''date'')
      in \<not> falsy from \<and> \<not> falsy to \<and> \<not> falsy date
         \<and> test airportPattern (or_else from []) \<and> test airportPattern (or_else to [])
         \<and> test datePattern (or_else date []))"

definition routes_checks_pass :: "runtime \<Rightarrow> searchParams \<Rightarrow> bool" where
  "routes_checks_pass rt searchParams =
     (normalised rt searchParams (lit ''origin'') \<noteq> []
      \<and> normalised rt searchParams (lit ''destination'') \<noteq> [])"

section \<open>Sample data\<close>

definition idle :: "'a world" where
  "idle = \<lparr>pending = [], sent = []\<rparr>"

text \<open>
  A runtime that knows two zones and reads the number of adults of the samples. The strings
  of the samples are ASCII or white space, so its case mappings are never consulted.
\<close>

definition sample_parts :: "jstring \<Rightarrow> (jstring \<times> jstring) list" where
  "sample_parts abbr =
     [(lit ''month'', lit ''1''), (lit ''literal'', lit ''/''), (lit ''day'', lit ''5''),
      (lit ''literal'', lit ''/''), (lit ''year'', lit ''2025''), (lit ''literal'', lit '', ''),
      (lit ''timeZoneName'', abbr)]"

definition sample_formatToParts :: "jstring \<Rightarrow> js_exn + (jstring \<times> jstring) list" where
  "sample_formatToParts tz =
     (if tz = lit ''America/New_York'' then Inr (sample_parts (lit ''EST''))
      else if tz = lit ''America/Los_Angeles'' then Inr (sample_parts (lit ''PST''))
      else Inl RangeError)"

definition sample_rt :: runtime where
  "sample_rt =
     \<lparr>rt_toUpperCase = (\<lambda>s. s), rt_toLowerCase = (\<lambda>s. s),
      rt_formatToParts = sample_formatToParts,
      rt_parseInt = (\<lambda>s. if s = lit ''1'' then Some 1 else None)\<rparr>"

text \<open>A fare response: two places, one carrier, three itineraries.\<close>

definition sample_places :: "int \<rightharpoonup> FlightApiPlace" where
  "sample_places =
     [1 \<mapsto> \<lparr>place_id = 1, place_iata = lit ''JFK'', place_name = lit ''New York John F. Kennedy'',
             place_type = (lit ''Airport'')\<rparr>,
      2 \<mapsto> \<lparr>place_id = 2, place_iata = lit ''LAX'', place_name = lit ''Los Angeles International'',
             place_type = (lit ''Airport'')\<rparr>]"

definition sample_carriers :: "int \<rightharpoonup> FlightApiCarrier" where
  "sample_carriers =
     [7 \<mapsto> \<lparr>carrier_id = 7, carrier_name = lit ''American Airlines'', carrier_iata = (lit ''AA'')\<rparr>]"

definition sample_leg :: "int \<Rightarrow> int \<Rightarrow> int list \<Rightarrow> FlightApiLeg" where
  "sample_leg org dst cs =
     \<lparr>fleg_id = lit ''leg'', origin_place_id = org, destination_place_id = dst,
      fleg_departure = lit ''2025-01-05T08:00:00'', fleg_arrival = lit ''2025-01-05T11:30:00'',
      fleg_duration = 390, stop_count = 0, marketing_carrier_ids = cs\<rparr>"

definition sample_option :: "number \<Rightarrow> FlightApiPricingOption" where
  "sample_option amt =
     \<lparr>price = Some \<lparr>amount = amt, update_status = (lit ''current'')\<rparr>, agent_ids = [lit ''agent''],
      items = [\<lparr>item_url = (lit ''/transport/flights/jfk/lax'')\<rparr>]\<rparr>"

definition sample_itinerary :: "jstring \<Rightarrow> number \<Rightarrow> int \<Rightarrow> int \<Rightarrow> int list \<Rightarrow> FlightApiItinerary" where
  "sample_itinerary i amt org dst cs =
     \<lparr>itinerary_id = i, pricing_options = [sample_option amt], legs = [sample_leg org dst cs]\<rparr>"

definition sample_response :: FlightApiResponse where
  "sample_response =
     \<lparr>itineraries =
        [sample_itinerary (lit ''it-a'') 300 1 2 [7],
         sample_itinerary (lit ''it-b'') 120 1 2 [7],
         sample_itinerary (lit ''it-c'') 300 1 9 [8]],
      places = sample_places, carriers = sample_carriers, currency = None\<rparr>"

text \<open>An itinerary with a leg between unknown places and no pricing option.\<close>

definition unpriced_response :: FlightApiResponse where
  "unpriced_response =
     \<lparr>itineraries =
        [\<lparr>itinerary_id = lit ''it-d'', pricing_options = [], legs = [sample_leg 8 9 [7]]\<rparr>],
      places = sample_places, carriers = sample_carriers, currency = None\<rparr>"

text \<open>An itinerary with a pricing option and without a leg.\<close>

definition legless_response :: FlightApiResponse where
  "legless_response =
     \<lparr>itineraries =
        [\<lparr>itinerary_id = lit ''it-e'', pricing_options = [sample_option 50], legs = []\<rparr>],
      places = sample_places, carriers = sample_carriers, currency = None\<rparr>"

text \<open>A provider flight and a provider route of the same airline.\<close>

definition sample_flight :: AviationStackFlight where
  "sample_flight =
     \<lparr>flight_date = lit ''2025-01-05'', flight_status = Some (lit ''active''),
      asf_departure =
        \<lparr>leg_airport = lit ''John F Kennedy International'', leg_timezone = lit ''America/New_York'',
         leg_iata = lit ''JFK'', leg_icao = lit ''KJFK'', leg_terminal = Some (lit ''8''), leg_gate = None,
         leg_delay = None, leg_scheduled = lit ''2025-01-05T08:00:00+00:00'',
         leg_estimated = lit ''2025-01-05T08:00:00+00:00'', leg_actual = None\<rparr>,
      asf_arrival =
        \<lparr>leg_airport = lit ''Los Angeles International'', leg_timezone = lit ''America/Los_Angeles'',
         leg_iata = lit ''LAX'', leg_icao = lit ''KLAX'', leg_terminal = None, leg_gate = None,
         leg_delay = Some 20, leg_scheduled = lit ''2025-01-05T11:30:00+00:00'',
         leg_estimated = lit ''2025-01-05T11:50:00+00:00'', leg_actual = None,
         leg_baggage = None\<rparr>,
      asf_airline = \<lparr>airline_name = lit ''American Airlines'', airline_iata = lit ''AA'',
                     airline_icao = (lit ''AAL'')\<rparr>,
      asf_flight = \<lparr>flight_number = lit ''100'', flight_iata = lit ''AA100'', flight_icao = (lit ''AAL100'')\<rparr>,
      asf_live = None\<rparr>"

definition sample_route :: AviationStackRoute where
  "sample_route =
     \<lparr>route_departure =
        \<lparr>rleg_airport = lit ''John F Kennedy International'', rleg_timezone = lit ''America/New_York'',
         rleg_iata = lit ''JFK'', rleg_icao = lit ''KJFK'', rleg_terminal = Some (lit ''8''),
         rleg_time = (lit ''08:00:00'')\<rparr>,
      route_arrival =
        \<lparr>rleg_airport = lit ''Los Angeles International'', rleg_timezone = lit ''America/Los_Angeles'',
         rleg_iata = lit ''LAX'', rleg_icao = lit ''KLAX'', rleg_terminal = None,
         rleg_time = (lit ''11:30:00'')\<rparr>,
      route_airline = \<lparr>ra_name = lit ''American Airlines'', ra_callsign = lit ''AMERICAN'',
                       ra_iata = lit ''AA'', ra_icao = (lit ''AAL'')\<rparr>,
      route_flight = \<lparr>rf_number = (lit ''100'')\<rparr>\<rparr>"

text \<open>
  A provider of routes that answers the first call with one route and the second call with
  an error payload.
\<close>

definition failing_return :: "AviationStackRoute as_payload world" where
  "failing_return =
     \<lparr>pending =
        [Answer 200 (Some \<lparr>payload_error = None, payload_data = Some [sample_route]\<rparr>),
         Answer 200 (Some \<lparr>payload_error = Some \<lparr>error_message = Some (lit ''Usage limit reached'')\<rparr>,
                            payload_data = None\<rparr>)],
      sent = []\<rparr>"

definition round_trip :: searchParams where
  "round_trip =
     [(lit ''origin'', lit ''jfk''), (lit ''destination'', lit ''lax''), (lit ''departureDate'', lit ''2025-01-05''),
      (lit ''returnDate'', lit ''2025-01-12'')]"

section \<open>Properties\<close>

subsection \<open>Literals\<close>

lemma lit_eq_iff [simp]: "lit s = lit t \<longleftrightarrow> s = t"
  by (simp add: lit_def inj_map_eq_map [OF inj_of_char])

lemma lit_eq_Nil [simp]: "lit s = [] \<longleftrightarrow> s = []"
  by (simp add: lit_def)

lemma Nil_eq_lit [simp]: "[] = lit s \<longleftrightarrow> s = []"
  by (auto simp: lit_def)

lemma length_lit [simp]: "length (lit s) = length s"
  by (simp add: lit_def)

text \<open>The equations that evaluate the definitions on given strings and requests.\<close>

lemmas string_eval =
  lit_def is_space_def is_ascii_def in_range_def trim_def startsWith_def
  toUpperCase_def toUpperCase_ascii_def toLowerCase_def toLowerCase_ascii_def

lemma rep_exactly_numeral:
  "rep_exactly 2 r = Cat r (Cat r Eps)"
  "rep_exactly 3 r = Cat r (Cat r (Cat r Eps))"
  "rep_exactly 4 r = Cat r (Cat r (Cat r (Cat r Eps)))"
  by (simp_all add: eval_nat_numeral)

lemmas pattern_eval =
  flightNumberPattern_def airportPattern_def datePattern_def upper_def digit_def dash_def
  one_or_more_def in_class_def rep_exactly_numeral

lemmas request_eval =
  sp_get_def normalised_def search_query_def pricing_checks_pass_def routes_checks_pass_def
  Let_def

subsection \<open>The matcher decides the language\<close>

lemma nullable_lang: "nullable r \<longleftrightarrow> [] \<in> lang r"
  by (induction r) (auto simp: conc_def intro: star_nil)

lemma conc_Cons:
  "c # s \<in> conc A B \<longleftrightarrow>
     (\<exists>u v. s = u @ v \<and> c # u \<in> A \<and> v \<in> B) \<or> ([] \<in> A \<and> c # s \<in> B)"
  unfolding conc_def by (auto simp: Cons_eq_append_conv)

lemma star_Cons_dest:
  assumes "w \<in> star A" and "w = c # s"
  shows "\<exists>u v. s = u @ v \<and> c # u \<in> A \<and> v \<in> star A"
  using assms
proof (induction arbitrary: s rule: star.induct)
  case star_nil
  then show ?case by simp
next
  case (star_app u v)
  show ?case
  proof (cases u)
    case Nil
    with star_app show ?thesis by simp
  next
    case (Cons a u')
    with star_app.prems have "a = c" and "s = u' @ v" by simp_all
    with Cons star_app.hyps show ?thesis by blast
  qed
qed

lemma star_Cons:
  "c # s \<in> star A \<longleftrightarrow> (\<exists>u v. s = u @ v \<and> c # u \<in> A \<and> v \<in> star A)"
proof
  assume "c # s \<in> star A"
  then show "\<exists>u v. s = u @ v \<and> c # u \<in> A \<and> v \<in> star A"
    by (rule star_Cons_dest) simp
next
  assume "\<exists>u v. s = u @ v \<and> c # u \<in> A \<and> v \<in> star A"
  then obtain u v where "s = u @ v" "c # u \<in> A" "v \<in> star A" by blast
  then have "(c # u) @ v \<in> star A" by (intro star_app)
  with \<open>s = u @ v\<close> show "c # s \<in> star A" by simp
qed

lemma deriv_lang: "s \<in> lang (deriv c r) \<longleftrightarrow> c # s \<in> lang r"
proof (induction r arbitrary: s)
  case (Cat a b)
  then show ?case
    by (auto simp: conc_Cons nullable_lang) (auto simp: conc_def)
next
  case (Star a)
  then show ?case
    by (auto simp: star_Cons conc_def)
qed auto

lemma test_lang: "test r s \<longleftrightarrow> s \<in> lang r"
  by (induction s arbitrary: r) (simp_all add: nullable_lang deriv_lang)

text \<open>
  Claim C1. Whatever the provider status is (also when it is absent), a departure or an
  arrival delay above 15 minutes makes the status mapper answer "delayed".
\<close>

theorem mapStatus_delay_precedence:
  assumes "(\<exists>d. depDelay = Some d \<and> d > 15) \<or> (\<exists>d. arrDelay = Some d \<and> d > 15)"
  shows "mapStatus rt apiStatus depDelay arrDelay = Delayed"
proof -
  from assms have "over15 depDelay \<or> over15 arrDelay"
    by auto
  then show ?thesis
    unfolding mapStatus_def Let_def by simp
qed

theorem mapStatus_delay_precedence_witness:
  "mapStatus sample_rt (Some (lit ''active'')) None (Some 20) = Delayed
   \<and> mapStatus sample_rt (Some (lit ''landed'')) (Some 16) None = Delayed
   \<and> mapStatus sample_rt (Some (lit ''cancelled'')) (Some 45) (Some 3) = Delayed"
  using mapStatus_delay_precedence
      [where depDelay = None and arrDelay = "Some 20" and rt = sample_rt
        and apiStatus = "Some (lit ''active'')"]
    mapStatus_delay_precedence
      [where depDelay = "Some 16" and arrDelay = None and rt = sample_rt
        and apiStatus = "Some (lit ''landed'')"]
    mapStatus_delay_precedence
      [where depDelay = "Some 45" and arrDelay = "Some 3" and rt = sample_rt
        and apiStatus = "Some (lit ''cancelled'')"]
  by simp

subsection \<open>Query classifier\<close>

lemma conc_single: "w \<in> conc {[c] | c. P c} B \<longleftrightarrow> (\<exists>c t. w = c # t \<and> P c \<and> t \<in> B)"
proof
  assume "w \<in> conc {[c] | c. P c} B"
  then show "\<exists>c t. w = c # t \<and> P c \<and> t \<in> B"
    by (auto simp: conc_def)
next
  assume "\<exists>c t. w = c # t \<and> P c \<and> t \<in> B"
  then obtain c t where "w = [c] @ t" "P c" "t \<in> B" by auto
  then show "w \<in> conc {[c] | c. P c} B"
    unfolding conc_def by blast
qed

lemma star_single: "s \<in> star {[c] | c. P c} \<longleftrightarrow> list_all P s"
proof (induction s)
  case Nil
  show ?case by (simp add: star_nil)
next
  case (Cons a s)
  have "a # s \<in> star {[c] | c. P c} \<longleftrightarrow> P a \<and> s \<in> star {[c] | c. P c}"
    by (auto simp: star_Cons)
  with Cons show ?case by simp
qed

lemma rep_chars:
  "s \<in> lang (rep_exactly n (Chars rs)) \<longleftrightarrow> length s = n \<and> list_all (in_class rs) s"
proof (induction n arbitrary: s)
  case 0
  show ?case by auto
next
  case (Suc n)
  show ?case by (cases s) (auto simp: conc_single Suc)
qed

lemma in_class_upper: "in_class [(65, 90)] = is_upper"
  by (rule ext) (simp add: in_class_def is_upper_def)

lemma in_class_digit: "in_class [(48, 57)] = is_digit"
  by (rule ext) (simp add: in_class_def is_digit_def)

lemma test_airportPattern: "test airportPattern q \<longleftrightarrow> three_letters q"
  by (simp add: test_lang airportPattern_def upper_def rep_chars in_class_upper
      three_letters_def)

lemma test_flightNumberPattern: "test flightNumberPattern q \<longleftrightarrow> two_letters_then_digits q"
proof
  assume "test flightNumberPattern q"
  then obtain u v where q: "q = u @ v" and u: "length u = 2" "list_all is_upper u"
    and v: "v \<in> lang (one_or_more digit)"
    by (auto simp: test_lang flightNumberPattern_def upper_def rep_chars in_class_upper conc_def)
  from v obtain c t where "v = c # t" "is_digit c" "list_all is_digit t"
    by (auto simp: one_or_more_def digit_def conc_single star_single in_class_digit)
  with q u show "two_letters_then_digits q"
    by (simp add: two_letters_then_digits_def)
next
  assume a: "two_letters_then_digits q"
  then obtain c t where d: "drop 2 q = c # t"
    by (cases "drop 2 q") (auto simp: two_letters_then_digits_def)
  with a have "is_digit c" "list_all is_digit t"
    by (simp_all add: two_letters_then_digits_def)
  then have "drop 2 q \<in> lang (one_or_more digit)"
    unfolding d by (auto simp: one_or_more_def digit_def conc_single star_single in_class_digit)
  moreover from a have "take 2 q \<in> lang (rep_exactly 2 upper)"
    by (simp add: upper_def rep_chars in_class_upper two_letters_then_digits_def)
  ultimately have "take 2 q @ drop 2 q \<in> lang flightNumberPattern"
    unfolding flightNumberPattern_def lang.simps conc_def by blast
  then show "test flightNumberPattern q"
    by (simp add: test_lang)
qed

lemma classify_spec: "classify q = field_of (spec_classify q)"
  by (simp add: classify_def spec_classify_def test_flightNumberPattern test_airportPattern)

lemma classify_cases:
  "classify q = lit ''flight_iata'' \<or> classify q = lit ''dep_iata'' \<or> classify q = lit ''airline_iata''"
  by (simp add: classify_def)

lemma search_url_params:
  "url_params (search_url key q d) =
     [(lit ''access_key'', key), (classify q, q)]
       @ (if d \<noteq> [] then [(lit ''flight_date'', d)] else []) @ [(lit ''limit'', lit ''20'')]"
  using classify_cases [of q] by (auto simp: search_url_def Let_def)

lemma GET_search_sent:
  assumes "search_query rt sp \<noteq> []" and "key \<noteq> []"
  shows "sent (snd (GET_search (Some key) rt sp w)) =
           sent w @ [search_url key (search_query rt sp) (or_else (sp_get sp (lit ''date'')) [])]"
  using assms unfolding GET_search_def Let_def fetch_def
  by (simp split: list.split reply.split option.split sum.split)

lemma GET_search_blank:
  assumes "search_query rt sp = []"
  shows "GET_search key rt sp w = (\<lparr>resp_status = 200, resp_body = Flights []\<rparr>, w)"
  using assms by (simp add: GET_search_def json_def)

text \<open>
  Claim C2, as the code has it. The classifier works on the query after upper-casing and
  trimming, not on the query as it came. It sends a normalised query of two capital letters
  and then digits as a flight number, else one of three capital letters as a departure
  airport, else one of two code units as an airline code, and any other as a flight number.
  It rejects none: with a key configured, every query that is not empty after
  normalisation goes to the provider in one request, in the field the rules choose. A
  query that is empty after normalisation is not classified; the answer has no flights and
  nothing is sent.
\<close>

theorem classifier_rules:
  "classify q = field_of (spec_classify q)
   \<and> (search_query rt sp = q \<and> q \<noteq> [] \<and> key \<noteq> [] \<longrightarrow>
        (\<exists>u. sent (snd (GET_search (Some key) rt sp w)) = sent w @ [u]
           \<and> url_params u =
               [(lit ''access_key'', key), (field_of (spec_classify q), q)]
                 @ (if or_else (sp_get sp (lit ''date'')) [] \<noteq> []
                    then [(lit ''flight_date'', or_else (sp_get sp (lit ''date'')) [])] else [])
                 @ [(lit ''limit'', lit ''20'')]))
   \<and> (search_query rt sp = [] \<longrightarrow>
        GET_search anykey rt sp w = (\<lparr>resp_status = 200, resp_body = Flights []\<rparr>, w))"
proof (intro conjI impI)
  show "classify q = field_of (spec_classify q)"
    by (rule classify_spec)
next
  assume a: "search_query rt sp = q \<and> q \<noteq> [] \<and> key \<noteq> []"
  let ?d = "or_else (sp_get sp (lit ''date'')) []"
  from a have "sent (snd (GET_search (Some key) rt sp w)) = sent w @ [search_url key q ?d]"
    using GET_search_sent [of rt sp key w] by simp
  moreover have "url_params (search_url key q ?d) =
      [(lit ''access_key'', key), (field_of (spec_classify q), q)]
        @ (if ?d \<noteq> [] then [(lit ''flight_date'', ?d)] else []) @ [(lit ''limit'', lit ''20'')]"
    by (simp only: search_url_params classify_spec)
  ultimately show "\<exists>u. sent (snd (GET_search (Some key) rt sp w)) = sent w @ [u]
      \<and> url_params u =
          [(lit ''access_key'', key), (field_of (spec_classify q), q)]
            @ (if ?d \<noteq> [] then [(lit ''flight_date'', ?d)] else []) @ [(lit ''limit'', lit ''20'')]"
    by blast
next
  assume "search_query rt sp = []"
  then show "GET_search anykey rt sp w = (\<lparr>resp_status = 200, resp_body = Flights []\<rparr>, w)"
    by (rule GET_search_blank)
qed

theorem classifier_rules_witness:
  "search_query sample_rt [(lit ''q'', lit '' aa100'')] = lit ''AA100''
   \<and> classify (lit ''AA100'') = lit ''flight_iata''
   \<and> (\<exists>u. sent (snd (GET_search (Some (lit ''k'')) sample_rt [(lit ''q'', lit '' aa100'')] idle))
             = [u]
         \<and> url_params u =
             [(lit ''access_key'', lit ''k''), (lit ''flight_iata'', lit ''AA100''),
              (lit ''limit'', lit ''20'')])
   \<and> search_query sample_rt [(lit ''q'', [160, 32])] = []
   \<and> GET_search (Some (lit ''k'')) sample_rt [(lit ''q'', [160, 32])] idle =
       (\<lparr>resp_status = 200, resp_body = Flights []\<rparr>, idle)"
proof -
  have q: "search_query sample_rt [(lit ''q'', lit '' aa100'')] = lit ''AA100''"
    by (simp add: request_eval string_eval)
  have k: "spec_classify (lit ''AA100'') = FlightNumberSearch"
    by (simp add: spec_classify_def two_letters_then_digits_def is_upper_def is_digit_def
        string_eval)
  have d: "or_else (sp_get [(lit ''q'', lit '' aa100'')] (lit ''date'')) [] = []"
    by (simp add: sp_get_def)
  have b: "search_query sample_rt [(lit ''q'', [160, 32])] = []"
    by (simp add: request_eval string_eval)
  have i: "sent (idle :: AviationStackFlight as_payload world) = []"
    by (simp add: idle_def)
  show ?thesis
    using classifier_rules [where q = "lit ''AA100''" and sp = "[(lit ''q'', lit '' aa100'')]"
        and key = "lit ''k''" and rt = sample_rt and w = idle]
      classifier_rules [where sp = "[(lit ''q'', [160, 32])]" and rt = sample_rt and w = idle
        and anykey = "Some (lit ''k'')"]
    by (simp add: q k d b i)
qed

lemma sent_search_example:
  assumes "search_query sample_rt sp = q" and "q \<noteq> []"
    and "or_else (sp_get sp (lit ''date'')) [] = []"
  shows "map url_params (sent (snd (GET_search (Some (lit ''k'')) sample_rt sp idle))) =
           [ [(lit ''access_key'', lit ''k''), (classify q, q), (lit ''limit'', lit ''20'')] ]"
  using assms GET_search_sent [of sample_rt sp "lit ''k''" idle]
  by (simp add: search_url_params idle_def)

theorem classifier_rules_counterexample:
  "\<not> test flightNumberPattern (lit ''jfk'')
   \<and> \<not> test airportPattern (lit ''jfk'')
   \<and> length (lit ''jfk'') = 3
   \<and> map url_params (sent (snd (GET_search (Some (lit ''k'')) sample_rt [(lit ''q'', lit ''jfk'')] idle)))
       = [ [(lit ''access_key'', lit ''k''), (lit ''dep_iata'', lit ''JFK''), (lit ''limit'', lit ''20'')] ]
   \<and> length (lit '' ua '') = 4
   \<and> map url_params (sent (snd (GET_search (Some (lit ''k'')) sample_rt [(lit ''q'', lit '' ua '')] idle)))
       = [ [(lit ''access_key'', lit ''k''), (lit ''airline_iata'', lit ''UA''), (lit ''limit'', lit ''20'')] ]
   \<and> sent (snd (GET_search (Some (lit ''k'')) sample_rt [(lit ''q'', lit ''  '')] idle)) = []"
proof (intro conjI)
  show "\<not> test flightNumberPattern (lit ''jfk'')"
    by (simp add: pattern_eval string_eval)
  show "\<not> test airportPattern (lit ''jfk'')"
    by (simp add: pattern_eval string_eval)
  show "length (lit ''jfk'') = 3"
    by simp
  have "search_query sample_rt [(lit ''q'', lit ''jfk'')] = lit ''JFK''"
    by (simp add: request_eval string_eval)
  moreover have "classify (lit ''JFK'') = lit ''dep_iata''"
    by (simp add: classify_def pattern_eval string_eval)
  ultimately show "map url_params
      (sent (snd (GET_search (Some (lit ''k'')) sample_rt [(lit ''q'', lit ''jfk'')] idle)))
       = [ [(lit ''access_key'', lit ''k''), (lit ''dep_iata'', lit ''JFK''), (lit ''limit'', lit ''20'')] ]"
    using sent_search_example [of "[(lit ''q'', lit ''jfk'')]" "lit ''JFK''"]
    by (simp add: sp_get_def)
  show "length (lit '' ua '') = 4"
    by simp
  have "search_query sample_rt [(lit ''q'', lit '' ua '')] = lit ''UA''"
    by (simp add: request_eval string_eval)
  moreover have "classify (lit ''UA'') = lit ''airline_iata''"
    by (simp add: classify_def pattern_eval string_eval)
  ultimately show "map url_params
      (sent (snd (GET_search (Some (lit ''k'')) sample_rt [(lit ''q'', lit '' ua '')] idle)))
       = [ [(lit ''access_key'', lit ''k''), (lit ''airline_iata'', lit ''UA''), (lit ''limit'', lit ''20'')] ]"
    using sent_search_example [of "[(lit ''q'', lit '' ua '')]" "lit ''UA''"]
    by (simp add: sp_get_def)
  have "search_query sample_rt [(lit ''q'', lit ''  '')] = []"
    by (simp add: request_eval string_eval)
  then show "sent (snd (GET_search (Some (lit ''k'')) sample_rt [(lit ''q'', lit ''  '')] idle)) = []"
    by (simp add: GET_search_blank idle_def)
qed

subsection \<open>Timezone label formatter\<close>

text \<open>
  Claim C8. The timezone label formatter never throws. For a zone that the runtime formats
  it gives the name, a space, and in parentheses the value of the first part of the
  formatted date whose type is \<open>timeZoneName\<close>, the short abbreviation (nothing between the
  parentheses when there is no such part). When the runtime throws it gives the name as it
  came. The empty name, which no runtime formats, comes back unchanged before the runtime
  is asked.
\<close>

theorem formatTimezone_total:
  "(\<exists>s. formatTimezone rt tz = Inr s)
   \<and> (tz \<noteq> [] \<and> rt_formatToParts rt tz = Inr parts
        \<and> find (\<lambda>p. fst p = lit ''timeZoneName'') parts = Some (ty, abbr) \<longrightarrow>
        formatTimezone rt tz = Inr (tz @ lit '' ('' @ abbr @ lit '')''))
   \<and> (tz \<noteq> [] \<and> rt_formatToParts rt tz = Inr parts
        \<and> find (\<lambda>p. fst p = lit ''timeZoneName'') parts = None \<longrightarrow>
        formatTimezone rt tz = Inr (tz @ lit '' ()''))
   \<and> ((\<exists>e. rt_formatToParts rt tz = Inl e) \<longrightarrow> formatTimezone rt tz = Inr tz)
   \<and> (tz = [] \<longrightarrow> formatTimezone rt tz = Inr tz)"
  unfolding formatTimezone_def formatTimezone_try_def tzAbbr_def
  by (cases "rt_formatToParts rt tz") (auto simp: lit_def)

theorem formatTimezone_total_witness:
  "formatTimezone sample_rt (lit ''America/New_York'') = Inr (lit ''America/New_York (EST)'')
   \<and> formatTimezone sample_rt (lit ''America/Los_Angeles'') = Inr (lit ''America/Los_Angeles (PST)'')
   \<and> formatTimezone sample_rt (lit ''Mars/Olympus'') = Inr (lit ''Mars/Olympus'')
   \<and> formatTimezone sample_rt [] = Inr []"
proof -
  have a: "rt_formatToParts sample_rt (lit ''America/New_York'') = Inr (sample_parts (lit ''EST''))"
    by (simp add: sample_rt_def sample_formatToParts_def)
  have b: "rt_formatToParts sample_rt (lit ''America/Los_Angeles'') = Inr (sample_parts (lit ''PST''))"
    by (simp add: sample_rt_def sample_formatToParts_def)
  have c: "rt_formatToParts sample_rt (lit ''Mars/Olympus'') = Inl RangeError"
    by (simp add: sample_rt_def sample_formatToParts_def)
  have f: "find (\<lambda>p. fst p = lit ''timeZoneName'') (sample_parts abbr)
             = Some (lit ''timeZoneName'', abbr)" for abbr
    by (simp add: sample_parts_def)
  have 1: "formatTimezone sample_rt (lit ''America/New_York'')
             = Inr (lit ''America/New_York'' @ lit '' ('' @ lit ''EST'' @ lit '')'')"
    using formatTimezone_total [where rt = sample_rt and tz = "lit ''America/New_York''"
        and parts = "sample_parts (lit ''EST'')" and ty = "lit ''timeZoneName''"
        and abbr = "lit ''EST''"] a f
    by simp
  have 2: "formatTimezone sample_rt (lit ''America/Los_Angeles'')
             = Inr (lit ''America/Los_Angeles'' @ lit '' ('' @ lit ''PST'' @ lit '')'')"
    using formatTimezone_total [where rt = sample_rt and tz = "lit ''America/Los_Angeles''"
        and parts = "sample_parts (lit ''PST'')" and ty = "lit ''timeZoneName''"
        and abbr = "lit ''PST''"] b f
    by simp
  have 3: "formatTimezone sample_rt (lit ''Mars/Olympus'') = Inr (lit ''Mars/Olympus'')"
    using formatTimezone_total [where rt = sample_rt and tz = "lit ''Mars/Olympus''"] c
    by simp
  have 4: "formatTimezone sample_rt [] = Inr []"
    using formatTimezone_total [where rt = sample_rt and tz = "[]"]
    by simp
  from 1 2 3 4 show ?thesis
    by (simp add: lit_def)
qed

subsection \<open>Requests that stop before the provider\<close>

lemma toUpperCase_space: "list_all is_space s \<Longrightarrow> toUpperCase rt s = s"
proof -
  assume a: "list_all is_space s"
  then have "list_all (\<lambda>c. is_ascii c \<or> is_space c) s"
    by (simp add: list_all_iff)
  moreover have "map toUpperCase_ascii s = s"
    using a
    by (induction s) (auto simp: toUpperCase_ascii_def is_space_def in_range_def)
  ultimately show "toUpperCase rt s = s"
    by (simp add: toUpperCase_def)
qed

lemma trim_spaces: "list_all is_space s \<Longrightarrow> trim s = []"
proof -
  assume "list_all is_space s"
  then have d: "dropWhile is_space s = []"
    by (induction s) simp_all
  show "trim s = []"
    unfolding trim_def d by simp
qed

lemma search_query_blank:
  assumes "sp_get sp (lit ''q'') = None
    \<or> (\<exists>q. sp_get sp (lit ''q'') = Some q \<and> list_all is_space q)"
  shows "search_query rt sp = []"
  using assms by (auto simp: search_query_def normalised_def toUpperCase_space trim_spaces)

text \<open>
  Claim C10. A search request whose \<open>q\<close> is absent, empty or white space only (any of the
  white space that \<open>trim\<close> strips, also beyond ASCII) is answered with status 200 and an
  empty list of flights; the key is not looked at (the answer is the same for every key,
  also with none) and the provider is not contacted (the world is unchanged).
\<close>

theorem empty_query_answer:
  assumes "sp_get sp (lit ''q'') = None
    \<or> (\<exists>q. sp_get sp (lit ''q'') = Some q \<and> list_all is_space q)"
  shows "GET_search key rt sp w = (\<lparr>resp_status = 200, resp_body = Flights []\<rparr>, w)"
  using search_query_blank [OF assms] by (simp add: GET_search_def json_def)

theorem empty_query_answer_witness:
  "GET_search None sample_rt [(lit ''date'', lit ''2025-01-05'')] idle
     = (\<lparr>resp_status = 200, resp_body = Flights []\<rparr>, idle)
   \<and> GET_search None sample_rt [(lit ''q'', []), (lit ''q'', lit ''AA100'')] idle
     = (\<lparr>resp_status = 200, resp_body = Flights []\<rparr>, idle)
   \<and> GET_search (Some (lit ''k'')) sample_rt [(lit ''q'', lit ''  '')] idle
     = (\<lparr>resp_status = 200, resp_body = Flights []\<rparr>, idle)
   \<and> GET_search None sample_rt [(lit ''q'', [160, 8232, 65279, 12288, 9])] idle
     = (\<lparr>resp_status = 200, resp_body = Flights []\<rparr>, idle)"
proof -
  have a: "sp_get [(lit ''date'', lit ''2025-01-05'')] (lit ''q'') = None"
    by (simp add: sp_get_def)
  have b: "sp_get [(lit ''q'', []), (lit ''q'', lit ''AA100'')] (lit ''q'') = Some []
      \<and> list_all is_space []"
    by (simp add: sp_get_def)
  have c: "sp_get [(lit ''q'', lit ''  '')] (lit ''q'') = Some (lit ''  '')
      \<and> list_all is_space (lit ''  '')"
    by (simp add: sp_get_def is_space_def lit_def)
  have d: "sp_get [(lit ''q'', [160, 8232, 65279, 12288, 9])] (lit ''q'')
        = Some [160, 8232, 65279, 12288, 9]
      \<and> list_all is_space [160, 8232, 65279, 12288, 9]"
    by (simp add: sp_get_def is_space_def)
  show ?thesis
    using empty_query_answer [of "[(lit ''date'', lit ''2025-01-05'')]" None sample_rt idle]
      empty_query_answer [of "[(lit ''q'', []), (lit ''q'', lit ''AA100'')]" None sample_rt idle]
      empty_query_answer [of "[(lit ''q'', lit ''  '')]" "Some (lit ''k'')" sample_rt idle]
      empty_query_answer [of "[(lit ''q'', [160, 8232, 65279, 12288, 9])]" None sample_rt idle]
      a b c d
    by simp
qed

lemma falsy_normalised: "falsy x \<Longrightarrow> falsy (map_option (trim \<circ> toUpperCase rt) x)"
  by (cases x) (simp_all add: trim_def toUpperCase_def)

text \<open>
  Claim C7. A pricing request in which \<open>from\<close>, \<open>to\<close> or \<open>date\<close> is absent or empty is
  answered with status 400 and the message that names the required parameters, and nothing
  is sent to the provider (the world is unchanged).
\<close>

theorem missing_parameters_answer:
  assumes "falsy (sp_get sp (lit ''from'')) \<or> falsy (sp_get sp (lit ''to''))
    \<or> falsy (sp_get sp (lit ''date''))"
  shows "GET_pricing key rt sp w =
           (\<lparr>resp_status = 400,
             resp_body = PricingError (lit ''Missing required parameters: from, to, date'')\<rparr>, w)"
  using assms falsy_normalised [of "sp_get sp (lit ''from'')" rt]
    falsy_normalised [of "sp_get sp (lit ''to'')" rt]
  by (auto simp: GET_pricing_def json_status_def Let_def)

theorem missing_parameters_answer_witness:
  "GET_pricing (Some (lit ''k'')) sample_rt [(lit ''from'', lit ''JFK''), (lit ''to'', lit ''LAX'')] idle =
     (\<lparr>resp_status = 400,
       resp_body = PricingError (lit ''Missing required parameters: from, to, date'')\<rparr>, idle)
   \<and> GET_pricing None sample_rt
        [(lit ''from'', []), (lit ''to'', lit ''LAX''), (lit ''date'', lit ''2025-01-05'')] idle =
     (\<lparr>resp_status = 400,
       resp_body = PricingError (lit ''Missing required parameters: from, to, date'')\<rparr>, idle)"
proof -
  have a: "falsy (sp_get [(lit ''from'', lit ''JFK''), (lit ''to'', lit ''LAX'')] (lit ''date''))"
    by (simp add: sp_get_def)
  have b: "falsy (sp_get [(lit ''from'', []), (lit ''to'', lit ''LAX''),
      (lit ''date'', lit ''2025-01-05'')] (lit ''from''))"
    by (simp add: sp_get_def)
  show ?thesis
    using missing_parameters_answer
        [of "[(lit ''from'', lit ''JFK''), (lit ''to'', lit ''LAX'')]" "Some (lit ''k'')" sample_rt idle]
      missing_parameters_answer
        [of "[(lit ''from'', []), (lit ''to'', lit ''LAX''), (lit ''date'', lit ''2025-01-05'')]"
          None sample_rt idle]
      a b
    by simp
qed

subsection \<open>Price transform\<close>

lemma insert_by_price: "insert_by by_price x ys = insort_key PriceResult_price x ys"
  by (induction ys) (simp_all add: by_price_def)

lemma sort_by_price: "sort_by by_price xs = sort_key PriceResult_price xs"
  by (induction xs) (simp_all add: sort_by_def sort_key_def insert_by_price)

lemma price_loop_map_filter: "price_loop body its acc = acc @ List.map_filter body its"
  by (induction its arbitrary: acc) (simp_all split: option.split)

lemma unsorted_prices_map_filter:
  "unsorted_prices data =
     List.map_filter (price_item (places data) (carriers data) (or_else (currency data) (lit ''USD'')))
       (itineraries data)"
  by (simp add: unsorted_prices_def price_loop_map_filter)

lemma set_map_filter_Some: "set (List.map_filter f xs) = {y. \<exists>x \<in> set xs. f x = Some y}"
  by (induction xs) (auto split: option.splits)

lemma set_transformPricingData:
  "set (transformPricingData data) =
     {r. \<exists>it \<in> set (itineraries data).
        price_item (places data) (carriers data) (or_else (currency data) (lit ''USD'')) it = Some r}"
  by (auto simp: transformPricingData_def sort_by_price unsorted_prices_map_filter
      set_map_filter_Some)

text \<open>
  Claim C3. The list of the price transform is in ascending order of price, and the items
  of one price stand in the order in which their itineraries stand in the provider's array.
\<close>

theorem prices_sorted_stable:
  "sorted (map PriceResult_price (transformPricingData data))
   \<and> filter (\<lambda>r. PriceResult_price r = p) (transformPricingData data) =
       filter (\<lambda>r. PriceResult_price r = p)
         (List.map_filter
            (price_item (places data) (carriers data) (or_else (currency data) (lit ''USD'')))
            (itineraries data))"
  by (simp add: transformPricingData_def sort_by_price unsorted_prices_map_filter
      sort_key_stable)

theorem prices_sorted_stable_witness:
  "sorted (map PriceResult_price (transformPricingData sample_response))
   \<and> map PriceResult_id
        (filter (\<lambda>r. PriceResult_price r = 300) (transformPricingData sample_response)) =
       [lit ''it-a'', lit ''it-c'']"
proof -
  have "map PriceResult_id (filter (\<lambda>r. PriceResult_price r = 300)
          (List.map_filter
             (price_item (places sample_response) (carriers sample_response)
                (or_else (currency sample_response) (lit ''USD'')))
             (itineraries sample_response))) = [lit ''it-a'', lit ''it-c'']"
    by code_simp
  then show ?thesis
    using prices_sorted_stable [of sample_response 300] by simp
qed

lemma price_item_None:
  "price_item pl ca cur it = None \<longleftrightarrow> pricing_options it = [] \<or> legs it = []"
  by (cases "pricing_options it"; cases "legs it") (simp_all add: price_item_def Let_def)

lemma unsorted_ids:
  "map PriceResult_id (List.map_filter (price_item pl ca cur) its) =
     map itinerary_id (filter (\<lambda>it. pricing_options it \<noteq> [] \<and> legs it \<noteq> []) its)"
proof (induction its)
  case Nil
  show ?case by simp
next
  case (Cons it its)
  show ?case
  proof (cases "price_item pl ca cur it")
    case None
    then have "pricing_options it = [] \<or> legs it = []"
      by (simp add: price_item_None)
    with Cons None show ?thesis
      by auto
  next
    case (Some r)
    have "\<not> (pricing_options it = [] \<or> legs it = [])"
      using Some price_item_None [of pl ca cur it] by simp
    moreover from Some have "PriceResult_id r = itinerary_id it"
      by (cases "pricing_options it"; cases "legs it")
        (auto simp: price_item_def Let_def)
    ultimately show ?thesis
      using Cons Some by simp
  qed
qed

lemma transformed_ids:
  "mset (map PriceResult_id (transformPricingData data)) =
     mset (map itinerary_id
       (filter (\<lambda>it. pricing_options it \<noteq> [] \<and> legs it \<noteq> []) (itineraries data)))"
proof -
  have "mset (map PriceResult_id (transformPricingData data)) =
      mset (map PriceResult_id (unsorted_prices data))"
    by (simp add: transformPricingData_def sort_by_price)
  then show ?thesis
    by (simp only: unsorted_prices_map_filter unsorted_ids)
qed

lemma transformed_length:
  "length (transformPricingData data) =
     length (filter (\<lambda>it. pricing_options it \<noteq> [] \<and> legs it \<noteq> []) (itineraries data))"
proof -
  have "length (transformPricingData data) = length (map PriceResult_id (unsorted_prices data))"
    by (simp add: transformPricingData_def sort_by_price)
  also have "\<dots> = length (map itinerary_id
      (filter (\<lambda>it. pricing_options it \<noteq> [] \<and> legs it \<noteq> []) (itineraries data)))"
    by (simp only: unsorted_prices_map_filter unsorted_ids)
  finally show ?thesis by simp
qed

lemma missing_lookups_item:
  assumes "it \<in> set (itineraries data)"
    and "first (pricing_options it) = Some pricingOption"
    and "first (legs it) = Some leg"
  shows "\<exists>r \<in> set (transformPricingData data).
           PriceResult_id r = itinerary_id it
           \<and> (places data (origin_place_id leg) = None \<longrightarrow>
                end_airport (PriceResult_departure r) = []
                \<and> end_airportName (PriceResult_departure r) = [])
           \<and> (places data (destination_place_id leg) = None \<longrightarrow>
                end_airport (PriceResult_arrival r) = []
                \<and> end_airportName (PriceResult_arrival r) = [])
           \<and> ((\<forall>c. first (marketing_carrier_ids leg) = Some c \<longrightarrow> carriers data c = None) \<longrightarrow>
                PriceResult_airlineCode r = [] \<and> PriceResult_airline r = lit ''Unknown Airline'')"
proof -
  let ?item = "price_item (places data) (carriers data) (or_else (currency data) (lit ''USD'')) it"
  from assms(2,3) obtain r where r: "?item = Some r"
    by (simp add: price_item_def Let_def)
  with assms(1) have m: "r \<in> set (transformPricingData data)"
    unfolding set_transformPricingData by blast
  from r assms(2,3) have "PriceResult_id r = itinerary_id it"
    by (auto simp: price_item_def Let_def)
  moreover from r assms(2,3) have "places data (origin_place_id leg) = None \<longrightarrow>
      end_airport (PriceResult_departure r) = [] \<and> end_airportName (PriceResult_departure r) = []"
    by (auto simp: price_item_def Let_def)
  moreover from r assms(2,3) have "places data (destination_place_id leg) = None \<longrightarrow>
      end_airport (PriceResult_arrival r) = [] \<and> end_airportName (PriceResult_arrival r) = []"
    by (auto simp: price_item_def Let_def)
  moreover from r assms(2,3)
  have "(\<forall>c. first (marketing_carrier_ids leg) = Some c \<longrightarrow> carriers data c = None) \<longrightarrow>
      PriceResult_airlineCode r = [] \<and> PriceResult_airline r = lit ''Unknown Airline''"
    by (cases "first (marketing_carrier_ids leg)") (auto simp: price_item_def Let_def)
  ultimately show ?thesis
    by (intro bexI [OF _ m] conjI)
qed

text \<open>
  Claim C6, as the code has it. An itinerary with a first pricing option and a first leg
  gives a result item whatever the lookup tables hold: the airport code and name of a place
  that is not in the table and the airline code of a carrier that is not in the table are
  empty, and the airline name of such a carrier is "Unknown Airline". An itinerary
  without a pricing option or without a leg is skipped: the identifiers of the items are
  those of the itineraries that have both, each as often as it occurs there.
\<close>

theorem missing_lookups_degrade:
  "(it \<in> set (itineraries data) \<and> first (pricing_options it) = Some pricingOption
      \<and> first (legs it) = Some leg \<longrightarrow>
      (\<exists>r \<in> set (transformPricingData data).
           PriceResult_id r = itinerary_id it
           \<and> (places data (origin_place_id leg) = None \<longrightarrow>
                end_airport (PriceResult_departure r) = []
                \<and> end_airportName (PriceResult_departure r) = [])
           \<and> (places data (destination_place_id leg) = None \<longrightarrow>
                end_airport (PriceResult_arrival r) = []
                \<and> end_airportName (PriceResult_arrival r) = [])
           \<and> ((\<forall>c. first (marketing_carrier_ids leg) = Some c \<longrightarrow> carriers data c = None) \<longrightarrow>
                PriceResult_airlineCode r = [] \<and> PriceResult_airline r = lit ''Unknown Airline'')))
   \<and> mset (map PriceResult_id (transformPricingData data)) =
       mset (map itinerary_id
         (filter (\<lambda>it. pricing_options it \<noteq> [] \<and> legs it \<noteq> []) (itineraries data)))
   \<and> length (transformPricingData data) =
       length (filter (\<lambda>it. pricing_options it \<noteq> [] \<and> legs it \<noteq> []) (itineraries data))"
proof (intro conjI impI)
  assume "it \<in> set (itineraries data) \<and> first (pricing_options it) = Some pricingOption
      \<and> first (legs it) = Some leg"
  then show "\<exists>r \<in> set (transformPricingData data).
           PriceResult_id r = itinerary_id it
           \<and> (places data (origin_place_id leg) = None \<longrightarrow>
                end_airport (PriceResult_departure r) = []
                \<and> end_airportName (PriceResult_departure r) = [])
           \<and> (places data (destination_place_id leg) = None \<longrightarrow>
                end_airport (PriceResult_arrival r) = []
                \<and> end_airportName (PriceResult_arrival r) = [])
           \<and> ((\<forall>c. first (marketing_carrier_ids leg) = Some c \<longrightarrow> carriers data c = None) \<longrightarrow>
                PriceResult_airlineCode r = [] \<and> PriceResult_airline r = lit ''Unknown Airline'')"
    using missing_lookups_item [of it data pricingOption leg] by blast
next
  show "mset (map PriceResult_id (transformPricingData data)) =
       mset (map itinerary_id
         (filter (\<lambda>it. pricing_options it \<noteq> [] \<and> legs it \<noteq> []) (itineraries data)))"
    by (rule transformed_ids)
  show "length (transformPricingData data) =
       length (filter (\<lambda>it. pricing_options it \<noteq> [] \<and> legs it \<noteq> []) (itineraries data))"
    by (rule transformed_length)
qed

theorem missing_lookups_degrade_witness:
  "(\<exists>r \<in> set (transformPricingData sample_response).
     PriceResult_id r = lit ''it-c''
     \<and> end_airport (PriceResult_arrival r) = [] \<and> end_airportName (PriceResult_arrival r) = []
     \<and> PriceResult_airlineCode r = [] \<and> PriceResult_airline r = lit ''Unknown Airline'')
   \<and> mset (map PriceResult_id (transformPricingData sample_response)) =
       {#lit ''it-a'', lit ''it-b'', lit ''it-c''#}
   \<and> length (transformPricingData legless_response) = 0"
proof -
  have a: "sample_itinerary (lit ''it-c'') 300 1 9 [8] \<in> set (itineraries sample_response)"
    by (simp add: sample_response_def)
  have b: "first (pricing_options (sample_itinerary (lit ''it-c'') 300 1 9 [8])) = Some (sample_option 300)"
    by (simp add: sample_itinerary_def)
  have c: "first (legs (sample_itinerary (lit ''it-c'') 300 1 9 [8])) = Some (sample_leg 1 9 [8])"
    by (simp add: sample_itinerary_def)
  have d: "places sample_response (destination_place_id (sample_leg 1 9 [8])) = None"
    by (simp add: sample_response_def sample_places_def sample_leg_def)
  have e: "\<forall>c. first (marketing_carrier_ids (sample_leg 1 9 [8])) = Some c \<longrightarrow>
             carriers sample_response c = None"
    by (simp add: sample_response_def sample_carriers_def sample_leg_def)
  have f: "itinerary_id (sample_itinerary (lit ''it-c'') 300 1 9 [8]) = lit ''it-c''"
    by (simp add: sample_itinerary_def)
  have g: "map itinerary_id (filter (\<lambda>it. pricing_options it \<noteq> [] \<and> legs it \<noteq> [])
      (itineraries sample_response)) = [lit ''it-a'', lit ''it-b'', lit ''it-c'']"
    by (simp add: sample_response_def sample_itinerary_def)
  have h: "filter (\<lambda>it. pricing_options it \<noteq> [] \<and> legs it \<noteq> [])
      (itineraries legless_response) = []"
    by (simp add: legless_response_def)
  have 1: "\<exists>r \<in> set (transformPricingData sample_response).
     PriceResult_id r = lit ''it-c''
     \<and> end_airport (PriceResult_arrival r) = [] \<and> end_airportName (PriceResult_arrival r) = []
     \<and> PriceResult_airlineCode r = [] \<and> PriceResult_airline r = lit ''Unknown Airline''"
    using missing_lookups_degrade [of "sample_itinerary (lit ''it-c'') 300 1 9 [8]"
        sample_response "sample_option 300" "sample_leg 1 9 [8]"] a b c d e f
    by auto
  have 2: "mset (map PriceResult_id (transformPricingData sample_response)) =
       {#lit ''it-a'', lit ''it-b'', lit ''it-c''#}"
    using missing_lookups_degrade [of _ sample_response] by (simp add: g)
  have 3: "length (transformPricingData legless_response) = 0"
    using missing_lookups_degrade [of _ legless_response] by (simp add: h)
  from 1 2 3 show ?thesis by blast
qed

theorem missing_lookups_counterexample:
  "carriers sample_response 8 = None
   \<and> map PriceResult_id (transformPricingData sample_response) =
       [lit ''it-b'', lit ''it-a'', lit ''it-c'']
   \<and> map PriceResult_airline (transformPricingData sample_response) =
       [lit ''American Airlines'', lit ''American Airlines'', lit ''Unknown Airline'']
   \<and> lit ''Unknown Airline'' \<noteq> []
   \<and> places unpriced_response 8 = None
   \<and> map legs (itineraries unpriced_response) = [ [sample_leg 8 9 [7]] ]
   \<and> transformPricingData unpriced_response = []"
proof (intro conjI)
  show "carriers sample_response 8 = None"
    by (simp add: sample_response_def sample_carriers_def)
  show "map PriceResult_id (transformPricingData sample_response) =
       [lit ''it-b'', lit ''it-a'', lit ''it-c'']"
    by code_simp
  show "map PriceResult_airline (transformPricingData sample_response) =
       [lit ''American Airlines'', lit ''American Airlines'', lit ''Unknown Airline'']"
    by code_simp
  show "lit ''Unknown Airline'' \<noteq> []"
    by simp
  show "places unpriced_response 8 = None"
    by (simp add: unpriced_response_def sample_places_def)
  show "map legs (itineraries unpriced_response) = [ [sample_leg 8 9 [7]] ]"
    by (simp add: unpriced_response_def)
  show "transformPricingData unpriced_response = []"
    by code_simp
qed

subsection \<open>Result identifiers\<close>

lemma length_map_indexed: "length (map_indexed f xs) = length xs"
  by (simp add: map_indexed_def)

lemma map_indexed_nth: "i < length xs \<Longrightarrow> map_indexed f xs ! i = f (xs ! i) i"
  by (simp add: map_indexed_def nth_enumerate_eq)

lemma formatTimezone_Inr: "\<exists>s. formatTimezone rt tz = Inr s"
  unfolding formatTimezone_def by (cases "formatTimezone_try rt tz") auto

lemma transformFlight_Inr:
  "\<exists>r. transformFlight rt f i = Inr r
       \<and> Flight_id r = flight_iata (asf_flight f) @ lit ''-'' @ show_nat i"
proof -
  obtain d where d: "formatTimezone rt (leg_timezone (asf_departure f)) = Inr d"
    using formatTimezone_Inr by blast
  obtain a where a: "formatTimezone rt (leg_timezone (asf_arrival f)) = Inr a"
    using formatTimezone_Inr by blast
  show ?thesis
    by (simp add: transformFlight_def d a)
qed

lemma sequence_Inr:
  assumes "\<forall>x \<in> set xs. \<exists>a. x = Inr a"
  shows "\<exists>ys. sequence xs = Inr ys \<and> length ys = length xs
           \<and> (\<forall>i < length xs. xs ! i = Inr (ys ! i))"
  using assms
proof (induction xs)
  case Nil
  show ?case by simp
next
  case (Cons x xs)
  then obtain a where x: "x = Inr a" by auto
  from Cons obtain ys where ys: "sequence xs = Inr ys" "length ys = length xs"
    "\<forall>i < length xs. xs ! i = Inr (ys ! i)"
    by auto
  have "\<forall>i < length (x # xs). (x # xs) ! i = Inr ((a # ys) ! i)"
  proof (intro allI impI)
    fix i
    assume "i < length (x # xs)"
    with x ys(3) show "(x # xs) ! i = Inr ((a # ys) ! i)"
      by (cases i) simp_all
  qed
  with x ys(1,2) show ?case by simp
qed

lemma flights_ids:
  "\<exists>flights. sequence (map_indexed (transformFlight rt) rows) = Inr flights
      \<and> length flights = length rows
      \<and> (\<forall>i < length rows.
            Flight_id (flights ! i) = flight_iata (asf_flight (rows ! i)) @ lit ''-'' @ show_nat i)"
proof -
  let ?xs = "map_indexed (transformFlight rt) rows"
  have "\<forall>x \<in> set ?xs. \<exists>a. x = Inr a"
    using transformFlight_Inr by (fastforce simp: map_indexed_def)
  from sequence_Inr [OF this] obtain flights where f: "sequence ?xs = Inr flights"
    "length flights = length ?xs" "\<forall>i < length ?xs. ?xs ! i = Inr (flights ! i)"
    by blast
  have "\<forall>i < length rows.
      Flight_id (flights ! i) = flight_iata (asf_flight (rows ! i)) @ lit ''-'' @ show_nat i"
  proof (intro allI impI)
    fix i
    assume i: "i < length rows"
    with f(3) have "transformFlight rt (rows ! i) i = Inr (flights ! i)"
      by (simp add: length_map_indexed map_indexed_nth)
    with transformFlight_Inr [of rt "rows ! i" i]
    show "Flight_id (flights ! i) = flight_iata (asf_flight (rows ! i)) @ lit ''-'' @ show_nat i"
      by auto
  qed
  with f(1,2) show ?thesis
    by (auto simp: length_map_indexed)
qed

lemma routes_ids:
  "i < length rows \<Longrightarrow>
     FlightRoute_id (map_indexed transformRoute rows ! i) =
       ra_iata (route_airline (rows ! i)) @ rf_number (route_flight (rows ! i))
         @ lit ''-'' @ show_nat i"
  by (simp add: map_indexed_nth transformRoute_def)

lemma price_item_id:
  assumes "price_item pl ca cur it = Some r"
  shows "PriceResult_id r = itinerary_id it"
  using assms
  by (cases "pricing_options it"; cases "legs it") (auto simp: price_item_def Let_def)

lemma prices_ids:
  "r \<in> set (transformPricingData data) \<Longrightarrow>
     \<exists>it \<in> set (itineraries data).
       price_item (places data) (carriers data) (or_else (currency data) (lit ''USD'')) it = Some r
       \<and> PriceResult_id r = itinerary_id it"
  unfolding set_transformPricingData
  using price_item_id by blast

text \<open>
  Claim C4, as the code has it. The identifier of a flight of the search is the flight's
  IATA designator, a hyphen and the position of the row in the provider's array; the
  identifier of a route is the airline's IATA code, the flight number, a hyphen and the
  position of the row; the identifier of a price result is the identifier that the
  provider gave to the itinerary the item is built from, whatever its position: every item
  is the item of one itinerary and carries that itinerary's identifier, and the identifiers
  of the items are those of the itineraries that have a pricing option and a leg, each as
  often as it occurs there.
\<close>

theorem result_identifiers:
  "(\<exists>flights. sequence (map_indexed (transformFlight rt) rows) = Inr flights
      \<and> length flights = length rows
      \<and> (\<forall>i < length rows.
            Flight_id (flights ! i) = flight_iata (asf_flight (rows ! i)) @ lit ''-'' @ show_nat i))
   \<and> (\<forall>i < length routes.
         FlightRoute_id (map_indexed transformRoute routes ! i) =
           ra_iata (route_airline (routes ! i)) @ rf_number (route_flight (routes ! i))
             @ lit ''-'' @ show_nat i)
   \<and> (\<forall>r \<in> set (transformPricingData data).
         \<exists>it \<in> set (itineraries data).
           price_item (places data) (carriers data) (or_else (currency data) (lit ''USD'')) it
             = Some r
           \<and> PriceResult_id r = itinerary_id it)
   \<and> mset (map PriceResult_id (transformPricingData data)) =
       mset (map itinerary_id
         (filter (\<lambda>it. pricing_options it \<noteq> [] \<and> legs it \<noteq> []) (itineraries data)))"
  using flights_ids [of rt rows] routes_ids [of _ routes] prices_ids [of _ data]
    transformed_ids [of data]
  by blast

theorem result_identifiers_witness:
  "(\<exists>flights. sequence (map_indexed (transformFlight sample_rt) [sample_flight]) = Inr flights
      \<and> Flight_id (flights ! 0) = lit ''AA100-0'')
   \<and> FlightRoute_id (map_indexed transformRoute [sample_route, sample_route] ! 1) = lit ''AA100-1''
   \<and> mset (map PriceResult_id (transformPricingData sample_response)) =
       {#lit ''it-a'', lit ''it-b'', lit ''it-c''#}"
proof -
  have a: "flight_iata (asf_flight sample_flight) @ lit ''-'' @ show_nat 0 = lit ''AA100-0''"
    by (simp add: sample_flight_def show_nat.simps lit_def)
  have b: "ra_iata (route_airline sample_route) @ rf_number (route_flight sample_route)
             @ lit ''-'' @ show_nat 1 = lit ''AA100-1''"
    by (simp add: sample_route_def show_nat.simps lit_def)
  have c: "map itinerary_id (filter (\<lambda>it. pricing_options it \<noteq> [] \<and> legs it \<noteq> [])
      (itineraries sample_response)) = [lit ''it-a'', lit ''it-b'', lit ''it-c'']"
    by (simp add: sample_response_def sample_itinerary_def)
  from result_identifiers [of sample_rt "[sample_flight]" "[sample_route, sample_route]"
      sample_response]
  have 1: "\<exists>flights. sequence (map_indexed (transformFlight sample_rt) [sample_flight]) = Inr flights
      \<and> Flight_id (flights ! 0) = flight_iata (asf_flight sample_flight) @ lit ''-'' @ show_nat 0"
    and 2: "FlightRoute_id (map_indexed transformRoute [sample_route, sample_route] ! 1) =
      ra_iata (route_airline sample_route) @ rf_number (route_flight sample_route)
        @ lit ''-'' @ show_nat 1"
    and 3: "mset (map PriceResult_id (transformPricingData sample_response)) =
      mset (map itinerary_id (filter (\<lambda>it. pricing_options it \<noteq> [] \<and> legs it \<noteq> [])
        (itineraries sample_response)))"
    by auto
  from 1 2 3 show ?thesis
    unfolding a b c by simp
qed

theorem result_identifiers_counterexample:
  "map itinerary_id (itineraries sample_response) = [lit ''it-a'', lit ''it-b'', lit ''it-c'']
   \<and> map PriceResult_id (transformPricingData sample_response) =
       [lit ''it-b'', lit ''it-a'', lit ''it-c'']
   \<and> map_indexed (\<lambda>r i. PriceResult_airlineCode r @ show_nat i)
        (transformPricingData sample_response) = [lit ''AA0'', lit ''AA1'', lit ''2'']
   \<and> map_sum id Flight_id (transformFlight sample_rt sample_flight 0) = Inr (lit ''AA100-0'')
   \<and> airline_iata (asf_airline sample_flight) @ show_nat 0 = lit ''AA0''
   \<and> FlightRoute_id (transformRoute sample_route 0) = lit ''AA100-0''
   \<and> ra_iata (route_airline sample_route) @ show_nat 0 = lit ''AA0''"
proof (intro conjI)
  show "map itinerary_id (itineraries sample_response) = [lit ''it-a'', lit ''it-b'', lit ''it-c'']"
    by (simp add: sample_response_def sample_itinerary_def)
  show "map PriceResult_id (transformPricingData sample_response) =
       [lit ''it-b'', lit ''it-a'', lit ''it-c'']"
    by code_simp
  show "map_indexed (\<lambda>r i. PriceResult_airlineCode r @ show_nat i)
        (transformPricingData sample_response) = [lit ''AA0'', lit ''AA1'', lit ''2'']"
    by code_simp
  obtain r where r: "transformFlight sample_rt sample_flight 0 = Inr r"
    "Flight_id r = flight_iata (asf_flight sample_flight) @ lit ''-'' @ show_nat 0"
    using transformFlight_Inr by blast
  then show "map_sum id Flight_id (transformFlight sample_rt sample_flight 0) = Inr (lit ''AA100-0'')"
    by (simp add: sample_flight_def show_nat.simps lit_def)
  show "airline_iata (asf_airline sample_flight) @ show_nat 0 = lit ''AA0''"
    by (simp add: sample_flight_def show_nat.simps lit_def)
  show "FlightRoute_id (transformRoute sample_route 0) = lit ''AA100-0''"
    by (simp add: transformRoute_def sample_route_def show_nat.simps lit_def)
  show "ra_iata (route_airline sample_route) @ show_nat 0 = lit ''AA0''"
    by (simp add: sample_route_def show_nat.simps lit_def)
qed

subsection \<open>A key that is not configured\<close>









subsection \<open>The call for the return routes\<close>

lemma GET_routes_outbound_ok:
  assumes "routes_checks_pass rt sp" and "configured key = Some k"
    and "pending w = Answer st (Some outboundData) # later"
    and "payload_error outboundData = None"
  shows "GET_routes key rt sp w =
           routes_return k (normalised rt sp (lit ''origin'')) (normalised rt sp (lit ''destination''))
             (or_else (sp_get sp (lit ''departureDate'')) [])
             (or_else (sp_get sp (lit ''returnDate'')) [])
             (map_indexed transformRoute (rows_of outboundData))
             (w\<lparr>pending := later,
                sent := sent w @ [routes_url k (normalised rt sp (lit ''origin''))
                                    (normalised rt sp (lit ''destination''))]\<rparr>)"
  using assms by (simp add: GET_routes_def routes_checks_pass_def Let_def fetch_def)

text \<open>
  Claim C9, as the code has it. In a routes request with a return date, after an outbound
  call that succeeded: when the call for the return routes is rejected or its body cannot
  be read, the handler answers with status 500 and the general message; when the call
  returns an error payload, the handler answers with status 200, the outbound routes and an
  empty list of return routes.
\<close>

theorem return_call_failure:
  assumes "routes_checks_pass rt sp" and "configured key = Some k"
    and "or_else (sp_get sp (lit ''returnDate'')) [] \<noteq> []"
    and "pending w = Answer st (Some outboundData) # second # rest"
    and "payload_error outboundData = None"
  shows "(second = Rejected \<or> (\<exists>st'. second = Answer st' None) \<longrightarrow>
            fst (GET_routes key rt sp w) =
              \<lparr>resp_status = 500,
               resp_body = RoutesError (lit ''Failed to fetch flight routes. Please try again.'')\<rparr>)
         \<and> (\<forall>st' returnData. second = Answer st' (Some returnData)
                \<and> payload_error returnData \<noteq> None \<longrightarrow>
              fst (GET_routes key rt sp w) =
                \<lparr>resp_status = 200,
                 resp_body = Routes
                   \<lparr>side_routes = map_indexed transformRoute (rows_of outboundData),
                    side_origin = normalised rt sp (lit ''origin''),
                    side_destination = normalised rt sp (lit ''destination''),
                    side_date = or_else (sp_get sp (lit ''departureDate'')) []\<rparr>
                   (Some \<lparr>side_routes = [],
                          side_origin = normalised rt sp (lit ''destination''),
                          side_destination = normalised rt sp (lit ''origin''),
                          side_date = or_else (sp_get sp (lit ''returnDate'')) []\<rparr>)\<rparr>)"
  unfolding GET_routes_outbound_ok [OF assms(1,2,4,5)]
  using assms(3)
  by (auto simp: routes_return_def fetch_def Let_def routes_failed_def json_def json_status_def)

theorem return_call_failure_witness:
  "fst (GET_routes (Some (lit ''k'')) sample_rt round_trip failing_return) =
     \<lparr>resp_status = 200,
      resp_body = Routes
        \<lparr>side_routes = [transformRoute sample_route 0], side_origin = lit ''JFK'',
         side_destination = lit ''LAX'', side_date = lit ''2025-01-05''\<rparr>
        (Some \<lparr>side_routes = [], side_origin = lit ''LAX'', side_destination = lit ''JFK'',
               side_date = lit ''2025-01-12''\<rparr>)\<rparr>
   \<and> fst (GET_routes (Some (lit ''k'')) sample_rt round_trip
          (failing_return\<lparr>pending := [hd (pending failing_return), Rejected]\<rparr>)) =
     \<lparr>resp_status = 500,
      resp_body = RoutesError (lit ''Failed to fetch flight routes. Please try again.'')\<rparr>"
proof -
  let ?out = "\<lparr>payload_error = None, payload_data = Some [sample_route]\<rparr>"
  let ?err = "\<lparr>payload_error = Some \<lparr>error_message = Some (lit ''Usage limit reached'')\<rparr>,
               payload_data = None :: AviationStackRoute list option\<rparr>"
  have a: "routes_checks_pass sample_rt round_trip"
    by (simp add: round_trip_def request_eval string_eval)
  have b: "configured (Some (lit ''k'')) = Some (lit ''k'')"
    by simp
  have c: "or_else (sp_get round_trip (lit ''returnDate'')) [] = lit ''2025-01-12''"
    by (simp add: round_trip_def sp_get_def)
  have c': "or_else (sp_get round_trip (lit ''returnDate'')) [] \<noteq> []"
    by (simp add: c)
  have d: "or_else (sp_get round_trip (lit ''departureDate'')) [] = lit ''2025-01-05''"
    by (simp add: round_trip_def sp_get_def)
  have e: "normalised sample_rt round_trip (lit ''origin'') = lit ''JFK''"
    by (simp add: round_trip_def request_eval string_eval)
  have f: "normalised sample_rt round_trip (lit ''destination'') = lit ''LAX''"
    by (simp add: round_trip_def request_eval string_eval)
  have p1: "pending failing_return = Answer 200 (Some ?out) # Answer 200 (Some ?err) # []"
    by (simp add: failing_return_def)
  have p2: "pending (failing_return\<lparr>pending := [hd (pending failing_return), Rejected]\<rparr>) =
      Answer 200 (Some ?out) # Rejected # []"
    by (simp add: failing_return_def)
  have o: "payload_error ?out = None"
    by simp
  have m: "map_indexed transformRoute (rows_of ?out) = [transformRoute sample_route 0]"
    by (simp add: map_indexed_def rows_of_def)
  show ?thesis
    using return_call_failure [OF a b c' p1 o] return_call_failure [OF a b c' p2 o]
    by (simp add: c d e f m)
qed

theorem return_call_failure_counterexample:
  "pending failing_return ! 1 =
     Answer 200 (Some \<lparr>payload_error = Some \<lparr>error_message = Some (lit ''Usage limit reached'')\<rparr>,
                        payload_data = None\<rparr>)
   \<and> or_else (sp_get round_trip (lit ''returnDate'')) [] = lit ''2025-01-12''
   \<and> fst (GET_routes (Some (lit ''k'')) sample_rt round_trip failing_return) =
       \<lparr>resp_status = 200,
        resp_body = Routes
          \<lparr>side_routes = [transformRoute sample_route 0], side_origin = lit ''JFK'',
           side_destination = lit ''LAX'', side_date = lit ''2025-01-05''\<rparr>
          (Some \<lparr>side_routes = [], side_origin = lit ''LAX'', side_destination = lit ''JFK'',
                 side_date = lit ''2025-01-12''\<rparr>)\<rparr>"
proof (intro conjI)
  show "pending failing_return ! 1 =
     Answer 200 (Some \<lparr>payload_error = Some \<lparr>error_message = Some (lit ''Usage limit reached'')\<rparr>,
                        payload_data = None\<rparr>)"
    by (simp add: failing_return_def)
  show "or_else (sp_get round_trip (lit ''returnDate'')) [] = lit ''2025-01-12''"
    by (simp add: round_trip_def sp_get_def)
  have a: "routes_checks_pass sample_rt round_trip"
    by (simp add: round_trip_def request_eval string_eval)
  have e: "normalised sample_rt round_trip (lit ''origin'') = lit ''JFK''"
    by (simp add: round_trip_def request_eval string_eval)
  have f: "normalised sample_rt round_trip (lit ''destination'') = lit ''LAX''"
    by (simp add: round_trip_def request_eval string_eval)
  have g: "GET_routes (Some (lit ''k'')) sample_rt round_trip failing_return =
      routes_return (lit ''k'') (lit ''JFK'') (lit ''LAX'') (lit ''2025-01-05'') (lit ''2025-01-12'')
        [transformRoute sample_route 0]
        (failing_return\<lparr>pending :=
            [Answer 200 (Some \<lparr>payload_error = Some \<lparr>error_message = Some (lit ''Usage limit reached'')\<rparr>,
                                payload_data = None\<rparr>)],
          sent := [routes_url (lit ''k'') (lit ''JFK'') (lit ''LAX'')]\<rparr>)"
  proof -
    have c: "or_else (sp_get round_trip (lit ''returnDate'')) [] = lit ''2025-01-12''"
      by (simp add: round_trip_def sp_get_def)
    have d: "or_else (sp_get round_trip (lit ''departureDate'')) [] = lit ''2025-01-05''"
      by (simp add: round_trip_def sp_get_def)
    have k: "configured (Some (lit ''k'')) = Some (lit ''k'')"
      by simp
    have p: "pending failing_return =
        Answer 200 (Some \<lparr>payload_error = None, payload_data = Some [sample_route]\<rparr>)
        # [Answer 200 (Some \<lparr>payload_error = Some \<lparr>error_message = Some (lit ''Usage limit reached'')\<rparr>,
                                payload_data = None\<rparr>)]"
      by (simp add: failing_return_def)
    have o: "payload_error \<lparr>payload_error = None, payload_data = Some [sample_route]\<rparr> = None"
      by simp
    have s: "sent failing_return = []"
      by (simp add: failing_return_def)
    show ?thesis
      unfolding GET_routes_outbound_ok [OF a k p o] c d e f s
      by (simp add: map_indexed_def rows_of_def)
  qed
  show "fst (GET_routes (Some (lit ''k'')) sample_rt round_trip failing_return) =
       \<lparr>resp_status = 200,
        resp_body = Routes
          \<lparr>side_routes = [transformRoute sample_route 0], side_origin = lit ''JFK'',
           side_destination = lit ''LAX'', side_date = lit ''2025-01-05''\<rparr>
          (Some \<lparr>side_routes = [], side_origin = lit ''LAX'', side_destination = lit ''JFK'',
                 side_date = lit ''2025-01-12''\<rparr>)\<rparr>"
    unfolding g
    by (simp add: routes_return_def fetch_def Let_def json_def)
qed

end
